theory Spec2Isabelle
  imports Complex_Main
begin

section \<open>JavaScript numbers\<close>

text \<open>
  The engine computes with JavaScript numbers. They are modelled as the real numbers
  extended by the three special values of IEEE arithmetic: rounding is idealised (a finite
  result is the exact real), but division by zero, infinities and NaN behave as in
  JavaScript, where no arithmetic operation throws. Zero is unsigned. A comparison or a
  \<open>Math.round\<close> of the model is that of the exact value: where the double that the program
  computes lies on the other side of a threshold, the program takes the other branch.
\<close>

datatype jsnum = Fin real | PInf | NInf | NaN

fun js_neg :: "jsnum \<Rightarrow> jsnum" where
  "js_neg (Fin a) = Fin (- a)"
| "js_neg PInf = NInf"
| "js_neg NInf = PInf"
| "js_neg NaN = NaN"

fun js_add :: "jsnum \<Rightarrow> jsnum \<Rightarrow> jsnum" where
  "js_add (Fin a) (Fin b) = Fin (a + b)"
| "js_add NaN _ = NaN"
| "js_add _ NaN = NaN"
| "js_add PInf NInf = NaN"
| "js_add NInf PInf = NaN"
| "js_add PInf _ = PInf"
| "js_add _ PInf = PInf"
| "js_add NInf _ = NInf"
| "js_add _ NInf = NInf"

definition js_sub :: "jsnum \<Rightarrow> jsnum \<Rightarrow> jsnum" where
  "js_sub a b = js_add a (js_neg b)"

fun js_mul :: "jsnum \<Rightarrow> jsnum \<Rightarrow> jsnum" where
  "js_mul (Fin a) (Fin b) = Fin (a * b)"
| "js_mul NaN _ = NaN"
| "js_mul _ NaN = NaN"
| "js_mul PInf (Fin b) = (if b = 0 then NaN else if 0 < b then PInf else NInf)"
| "js_mul NInf (Fin b) = (if b = 0 then NaN else if 0 < b then NInf else PInf)"
| "js_mul (Fin a) PInf = (if a = 0 then NaN else if 0 < a then PInf else NInf)"
| "js_mul (Fin a) NInf = (if a = 0 then NaN else if 0 < a then NInf else PInf)"
| "js_mul PInf PInf = PInf"
| "js_mul PInf NInf = NInf"
| "js_mul NInf PInf = NInf"
| "js_mul NInf NInf = PInf"

fun js_div :: "jsnum \<Rightarrow> jsnum \<Rightarrow> jsnum" where
  "js_div (Fin a) (Fin b) =
     (if b \<noteq> 0 then Fin (a / b)
      else if a = 0 then NaN else if 0 < a then PInf else NInf)"
| "js_div NaN _ = NaN"
| "js_div _ NaN = NaN"
| "js_div (Fin a) PInf = Fin 0"
| "js_div (Fin a) NInf = Fin 0"
| "js_div PInf (Fin b) = (if 0 \<le> b then PInf else NInf)"
| "js_div NInf (Fin b) = (if 0 \<le> b then NInf else PInf)"
| "js_div PInf PInf = NaN"
| "js_div PInf NInf = NaN"
| "js_div NInf PInf = NaN"
| "js_div NInf NInf = NaN"

text \<open>\<open>Math.max\<close> and \<open>Math.min\<close>: NaN if either argument is NaN.\<close>

fun js_max :: "jsnum \<Rightarrow> jsnum \<Rightarrow> jsnum" where
  "js_max (Fin a) (Fin b) = Fin (max a b)"
| "js_max NaN _ = NaN"
| "js_max _ NaN = NaN"
| "js_max PInf _ = PInf"
| "js_max _ PInf = PInf"
| "js_max NInf y = y"
| "js_max x NInf = x"

fun js_min :: "jsnum \<Rightarrow> jsnum \<Rightarrow> jsnum" where
  "js_min (Fin a) (Fin b) = Fin (min a b)"
| "js_min NaN _ = NaN"
| "js_min _ NaN = NaN"
| "js_min NInf _ = NInf"
| "js_min _ NInf = NInf"
| "js_min PInf y = y"
| "js_min x PInf = x"

text \<open>The comparisons less-than, greater-than and strict equality: false whenever an
  argument is NaN.\<close>

fun js_lt :: "jsnum \<Rightarrow> jsnum \<Rightarrow> bool" where
  "js_lt (Fin a) (Fin b) = (a < b)"
| "js_lt NaN _ = False"
| "js_lt _ NaN = False"
| "js_lt PInf _ = False"
| "js_lt _ NInf = False"
| "js_lt (Fin a) PInf = True"
| "js_lt NInf (Fin b) = True"
| "js_lt NInf PInf = True"

definition js_gt :: "jsnum \<Rightarrow> jsnum \<Rightarrow> bool" where
  "js_gt a b = js_lt b a"

definition js_eq :: "jsnum \<Rightarrow> jsnum \<Rightarrow> bool" where
  "js_eq a b = (a \<noteq> NaN \<and> a = b)"

fun js_abs :: "jsnum \<Rightarrow> jsnum" where
  "js_abs (Fin a) = Fin \<bar>a\<bar>"
| "js_abs NaN = NaN"
| "js_abs _ = PInf"

fun js_exp :: "jsnum \<Rightarrow> jsnum" where
  "js_exp (Fin a) = Fin (exp a)"
| "js_exp PInf = PInf"
| "js_exp NInf = Fin 0"
| "js_exp NaN = NaN"

text \<open>\<open>Math.round\<close>: the nearest integer, a tie going up.\<close>

fun js_round :: "jsnum \<Rightarrow> jsnum" where
  "js_round (Fin a) = Fin (of_int \<lfloor>a + 1 / 2\<rfloor>)"
| "js_round x = x"

text \<open>\<open>x || 0\<close> on a field that holds an integer, \<open>null\<close> or nothing.\<close>

fun or0 :: "int option \<Rightarrow> int" where
  "or0 (Some v) = v"
| "or0 None = 0"

definition num :: "int \<Rightarrow> jsnum" where
  "num i = Fin (of_int i)"

section \<open>Failure\<close>

text \<open>
  A thrown exception or rejected promise is the left injection of a sum; \<open>bindE\<close> is
  \<open>await\<close> in sequence and \<open>catchE m d\<close> is \<open>try { return m } catch { return d }\<close>.
\<close>

datatype error = Rejected

definition bindE :: "error + 'a \<Rightarrow> ('a \<Rightarrow> error + 'b) \<Rightarrow> error + 'b" where
  "bindE m f = (case m of Inl e \<Rightarrow> Inl e | Inr x \<Rightarrow> f x)"

definition catchE :: "error + 'a \<Rightarrow> 'a \<Rightarrow> error + 'a" where
  "catchE m d = (case m of Inl e \<Rightarrow> Inr d | Inr x \<Rightarrow> Inr x)"

section \<open>Data model (types/index.ts, prediction-engine.ts)\<close>

text \<open>
  Only the fields the engine reads are kept. A fixture's \<open>date\<close> is the millisecond
  timestamp \<open>new Date(date).getTime()\<close> of a valid date string; goals are
  \<open>number | null\<close>.
\<close>

record Team =
  id_team :: int
  name_team :: string

record Fixture =
  id_fixture :: int
  date :: int
  status_short :: string
  teams_home :: Team
  teams_away :: Team
  goals_home :: "int option"
  goals_away :: "int option"

text \<open>
  The statistics of one team in one season, as \<open>analyzeTeamStatistics\<close> reads them through
  a record of unknown values: a key that is absent or holds no number (as in a raw API
  response) is \<open>None\<close>; the records of the database hold a number under every key.
\<close>

record TeamStatistics =
  team_id :: int
  season :: int
  played :: "int option"
  home_wins :: "int option"
  home_draws :: "int option"
  home_losses :: "int option"
  goal_difference :: "int option"
  clean_sheets :: "int option"
  failed_to_score :: "int option"
  goals_for :: "int option"
  goals_against :: "int option"

record FormAnalysis =
  wins :: int
  draws :: int
  losses :: int
  goalsFor :: int
  goalsAgainst :: int
  points :: int
  formScore :: jsnum

record StatisticalAnalysis =
  homeAdvantage :: jsnum
  goalDifferential :: jsnum
  cleanSheetRatio :: jsnum
  scoringConsistency :: jsnum
  defensiveStrength :: jsnum
  attackingStrength :: jsnum

record MatchContext =
  homeTeam :: Team
  awayTeam :: Team
  fixture :: Fixture
  homeForm :: FormAnalysis
  awayForm :: FormAnalysis
  homeStats :: StatisticalAnalysis
  awayStats :: StatisticalAnalysis
  headToHeadRecord :: "Fixture list"
  homeAdvantage_ctx :: jsnum

datatype outcome = HOME_WIN | DRAW | AWAY_WIN

record PredictionFactors =
  homeFormScore :: jsnum
  awayFormScore :: jsnum
  headToHeadScore :: jsnum
  homeAdvantage_f :: jsnum
  goalDifferenceFactor :: jsnum

record PredictionResult =
  prediction :: outcome
  confidence :: jsnum
  factors :: PredictionFactors

record MLProbability =
  homeWin :: jsnum
  draw :: jsnum
  awayWin :: jsnum

section \<open>The collaborators (api-football.ts, database.ts)\<close>

text \<open>
  The API client: whether a key is configured, the remote statistics request (which may
  throw, and whose answer may be empty) and the clock read by \<open>getCurrentSeason\<close>
  (\<open>now_month\<close> is \<open>getMonth() + 1\<close>).
\<close>

record ApiFootball =
  hasApiKey :: bool
  getTeamStatistics_api :: "int \<Rightarrow> int \<Rightarrow> error + TeamStatistics option"
  now_year :: int
  now_month :: int

definition getCurrentSeason :: "ApiFootball \<Rightarrow> int" where
  "getCurrentSeason api =
     (if now_month api \<ge> 8 then now_year api else now_year api - 1)"

definition getAnalysisSeasons :: "ApiFootball \<Rightarrow> (int \<times> real) list" where
  "getAnalysisSeasons api =
     (let currentSeason = getCurrentSeason api
      in [(currentSeason, 0.5), (currentSeason - 1, 0.3), (currentSeason - 2, 0.2)])"

text \<open>The loop of \<open>getMultiSeasonTeamStatistics\<close>: a season whose request throws or
  answers nothing is skipped.\<close>

fun api_collect :: "ApiFootball \<Rightarrow> int \<Rightarrow> (int \<times> real) list
    \<Rightarrow> (int \<times> TeamStatistics \<times> real) list" where
  "api_collect api teamId [] = []"
| "api_collect api teamId ((ssn, weight) # rest) =
     (case getTeamStatistics_api api teamId ssn of
        Inr (Some stats) \<Rightarrow> (ssn, stats, weight) # api_collect api teamId rest
      | _ \<Rightarrow> api_collect api teamId rest)"

definition getMultiSeasonTeamStatistics ::
    "ApiFootball \<Rightarrow> int \<Rightarrow> (int \<times> TeamStatistics \<times> real) list" where
  "getMultiSeasonTeamStatistics api teamId = api_collect api teamId (getAnalysisSeasons api)"

text \<open>
  What the engine asks of its data: the dynamic import of the API module and the three
  \<open>Database\<close> queries, each of which may reject.
\<close>

record DataSource =
  import_api_football :: "error + ApiFootball"
  getTeamRecentForm :: "int \<Rightarrow> nat \<Rightarrow> error + Fixture list"
  getHeadToHeadRecords :: "int \<Rightarrow> int \<Rightarrow> nat \<Rightarrow> error + Fixture list"
  getTeamStatistics :: "int \<Rightarrow> int \<Rightarrow> error + TeamStatistics option"

text \<open>The in-memory database of database.ts. \<open>Array.prototype.sort\<close> is stable, as
  \<open>sort_key\<close> is; the comparator orders by date, most recent first.\<close>

record MockDatabase =
  fixtures :: "Fixture list"
  teamStatistics :: "TeamStatistics list"

definition Database_getTeamRecentForm :: "MockDatabase \<Rightarrow> int \<Rightarrow> nat \<Rightarrow> Fixture list" where
  "Database_getTeamRecentForm db teamId matches =
     take matches (sort_key (\<lambda>f. - date f)
       (filter (\<lambda>f. (id_team (teams_home f) = teamId \<or> id_team (teams_away f) = teamId)
                    \<and> status_short f = ''FT'') (fixtures db)))"

definition h2h_filter :: "int \<Rightarrow> int \<Rightarrow> Fixture \<Rightarrow> bool" where
  "h2h_filter team1Id team2Id f =
     (((id_team (teams_home f) = team1Id \<and> id_team (teams_away f) = team2Id) \<or>
       (id_team (teams_home f) = team2Id \<and> id_team (teams_away f) = team1Id))
      \<and> status_short f = ''FT'')"

definition Database_getHeadToHeadRecords ::
    "MockDatabase \<Rightarrow> int \<Rightarrow> int \<Rightarrow> nat \<Rightarrow> Fixture list" where
  "Database_getHeadToHeadRecords db team1Id team2Id limit =
     take limit (sort_key (\<lambda>f. - date f) (filter (h2h_filter team1Id team2Id) (fixtures db)))"

definition Database_getTeamStatistics ::
    "MockDatabase \<Rightarrow> int \<Rightarrow> int \<Rightarrow> TeamStatistics option" where
  "Database_getTeamStatistics db teamId s =
     find (\<lambda>stats. team_id stats = teamId \<and> season stats = s) (teamStatistics db)"

definition Database :: "MockDatabase \<Rightarrow> error + ApiFootball \<Rightarrow> DataSource" where
  "Database db api =
     \<lparr> import_api_football = api,
       getTeamRecentForm = (\<lambda>teamId matches. Inr (Database_getTeamRecentForm db teamId matches)),
       getHeadToHeadRecords =
         (\<lambda>team1Id team2Id limit. Inr (Database_getHeadToHeadRecords db team1Id team2Id limit)),
       getTeamStatistics = (\<lambda>teamId s. Inr (Database_getTeamStatistics db teamId s)) \<rparr>"

section \<open>Form analyzer\<close>

text \<open>One iteration of the loop of \<open>analyzeTeamForm\<close>; the state is
  \<open>(wins, draws, losses, goalsFor, goalsAgainst)\<close>.\<close>

definition form_step :: "int \<Rightarrow> int \<times> int \<times> int \<times> int \<times> int \<Rightarrow> Fixture
    \<Rightarrow> int \<times> int \<times> int \<times> int \<times> int" where
  "form_step teamId acc match =
     (case acc of (w, d, l, gf, ga) \<Rightarrow>
        let isHome = (id_team (teams_home match) = teamId);
            teamGoals = (if isHome then or0 (goals_home match) else or0 (goals_away match));
            opponentGoals = (if isHome then or0 (goals_away match) else or0 (goals_home match))
        in if teamGoals > opponentGoals then (w + 1, d, l, gf + teamGoals, ga + opponentGoals)
           else if teamGoals = opponentGoals then (w, d + 1, l, gf + teamGoals, ga + opponentGoals)
           else (w, d, l + 1, gf + teamGoals, ga + opponentGoals))"

definition form_loop :: "int \<Rightarrow> Fixture list \<Rightarrow> int \<times> int \<times> int \<times> int \<times> int" where
  "form_loop teamId recentMatches = foldl (form_step teamId) (0, 0, 0, 0, 0) recentMatches"

definition neutralForm :: FormAnalysis where
  "neutralForm = \<lparr> wins = 0, draws = 0, losses = 0, goalsFor = 0, goalsAgainst = 0,
                   points = 0, formScore = Fin 50 \<rparr>"

definition analyzeTeamForm :: "DataSource \<Rightarrow> int \<Rightarrow> nat \<Rightarrow> error + FormAnalysis" where
  "analyzeTeamForm src teamId matches =
     catchE
       (bindE (getTeamRecentForm src teamId matches) (\<lambda>recentMatches.
          case form_loop teamId recentMatches of
            (w, d, l, gf, ga) \<Rightarrow>
              let pts = (w * 3) + d;
                  maxPoints = int matches * 3;
                  score = js_mul (js_div (num pts) (num maxPoints)) (Fin 100)
              in Inr \<lparr> wins = w, draws = d, losses = l, goalsFor = gf, goalsAgainst = ga,
                       points = pts, formScore = score \<rparr>))
       neutralForm"

section \<open>Head-to-head analyzer\<close>

definition h2h_step :: "int \<Rightarrow> int \<Rightarrow> Fixture \<Rightarrow> int" where
  "h2h_step team1Id team1Score match =
     (let isTeam1Home = (id_team (teams_home match) = team1Id);
          team1Goals = (if isTeam1Home then or0 (goals_home match) else or0 (goals_away match));
          team2Goals = (if isTeam1Home then or0 (goals_away match) else or0 (goals_home match))
      in if team1Goals > team2Goals then team1Score + 3
         else if team1Goals = team2Goals then team1Score + 1
         else team1Score)"

definition h2h_loop :: "int \<Rightarrow> Fixture list \<Rightarrow> int" where
  "h2h_loop team1Id h2hMatches = foldl (h2h_step team1Id) 0 h2hMatches"

definition analyzeHeadToHead :: "DataSource \<Rightarrow> int \<Rightarrow> int \<Rightarrow> error + jsnum" where
  "analyzeHeadToHead src team1Id team2Id =
     catchE
       (bindE (getHeadToHeadRecords src team1Id team2Id 10) (\<lambda>h2hMatches.
          if length h2hMatches = 0 then Inr (Fin 50)
          else
            let team1Score = h2h_loop team1Id h2hMatches;
                totalMatches = int (length h2hMatches);
                maxScore = totalMatches * 3
            in Inr (js_mul (js_div (num team1Score) (num maxScore)) (Fin 100))))
       (Fin 50)"

section \<open>Statistical analyzer\<close>

text \<open>The database fallback of \<open>analyzeTeamStatistics\<close>: one lookup per configured season;
  a lookup that rejects or finds nothing is skipped.\<close>

fun db_collect :: "DataSource \<Rightarrow> int \<Rightarrow> (int \<times> real) list
    \<Rightarrow> (int \<times> TeamStatistics \<times> real) list" where
  "db_collect src teamId [] = []"
| "db_collect src teamId ((ssn, weight) # rest) =
     (case getTeamStatistics src teamId ssn of
        Inr (Some stats) \<Rightarrow> (ssn, stats, weight) # db_collect src teamId rest
      | _ \<Rightarrow> db_collect src teamId rest)"

text \<open>The first half of \<open>analyzeTeamStatistics\<close>: the list \<open>multiSeasonData\<close>. It fails
  only if the dynamic import does.\<close>

definition collectSeasonData ::
    "DataSource \<Rightarrow> int \<Rightarrow> error + (int \<times> TeamStatistics \<times> real) list" where
  "collectSeasonData src teamId =
     bindE (import_api_football src) (\<lambda>apiFootball.
       let multiSeasonData =
             (if hasApiKey apiFootball then getMultiSeasonTeamStatistics apiFootball teamId
              else [])
       in if length multiSeasonData = 0
            then Inr (db_collect src teamId (getAnalysisSeasons apiFootball))
          else Inr multiSeasonData)"

text \<open>The guard \<open>stats && stats.played > 0\<close> of the blending loop.\<close>

definition qualifies :: "TeamStatistics \<Rightarrow> bool" where
  "qualifies stats = (case played stats of None \<Rightarrow> False | Some p \<Rightarrow> p > 0)"

text \<open>The six metrics of one qualifying season, as the body of the loop computes them.\<close>

definition season_metrics :: "TeamStatistics \<Rightarrow> StatisticalAnalysis" where
  "season_metrics stats =
     (let totalMatches = or0 (played stats);
          homeWins = or0 (home_wins stats);
          homeDraws = or0 (home_draws stats);
          homeLosses = or0 (home_losses stats);
          homeAdv = js_mul (js_div (num (homeWins * 3 + homeDraws))
                                   (num ((homeWins + homeDraws + homeLosses) * 3))) (Fin 100);
          goalDiff = num (or0 (goal_difference stats));
          cleanSheets = or0 (clean_sheets stats);
          failedToScore = or0 (failed_to_score stats);
          goalsFor = or0 (goals_for stats);
          goalsAgainst = or0 (goals_against stats);
          cleanSheet = js_mul (js_div (num cleanSheets) (num totalMatches)) (Fin 100);
          scoring = js_mul (js_div (num (totalMatches - failedToScore)) (num totalMatches))
                           (Fin 100);
          goalsConceededPerMatch = js_div (num goalsAgainst) (num totalMatches);
          defensive = js_max (Fin 0) (js_sub (Fin 100) (js_mul goalsConceededPerMatch (Fin 25)));
          goalsScoredPerMatch = js_div (num goalsFor) (num totalMatches);
          attacking = js_min (Fin 100) (js_mul goalsScoredPerMatch (Fin 40))
      in \<lparr> homeAdvantage = homeAdv, goalDifferential = goalDiff, cleanSheetRatio = cleanSheet,
           scoringConsistency = scoring, defensiveStrength = defensive,
           attackingStrength = attacking \<rparr>)"

text \<open>One iteration of the blending loop; the state is \<open>(weightedStats, totalWeight)\<close>.\<close>

definition stats_step :: "StatisticalAnalysis \<times> real \<Rightarrow> int \<times> TeamStatistics \<times> real
    \<Rightarrow> StatisticalAnalysis \<times> real" where
  "stats_step acc entry =
     (case acc of (weightedStats, totalWeight) \<Rightarrow>
      case entry of (ssn, stats, weight) \<Rightarrow>
        if qualifies stats then
          let m = season_metrics stats
          in (\<lparr> homeAdvantage =
                   js_add (homeAdvantage weightedStats) (js_mul (homeAdvantage m) (Fin weight)),
                 goalDifferential =
                   js_add (goalDifferential weightedStats)
                          (js_mul (goalDifferential m) (Fin weight)),
                 cleanSheetRatio =
                   js_add (cleanSheetRatio weightedStats) (js_mul (cleanSheetRatio m) (Fin weight)),
                 scoringConsistency =
                   js_add (scoringConsistency weightedStats)
                          (js_mul (scoringConsistency m) (Fin weight)),
                 defensiveStrength =
                   js_add (defensiveStrength weightedStats)
                          (js_mul (defensiveStrength m) (Fin weight)),
                 attackingStrength =
                   js_add (attackingStrength weightedStats)
                          (js_mul (attackingStrength m) (Fin weight)) \<rparr>,
              totalWeight + weight)
        else acc)"

definition zeroStats :: StatisticalAnalysis where
  "zeroStats = \<lparr> homeAdvantage = Fin 0, goalDifferential = Fin 0, cleanSheetRatio = Fin 0,
                 scoringConsistency = Fin 0, defensiveStrength = Fin 0,
                 attackingStrength = Fin 0 \<rparr>"

definition neutralStats :: StatisticalAnalysis where
  "neutralStats = \<lparr> homeAdvantage = Fin 50, goalDifferential = Fin 0, cleanSheetRatio = Fin 0,
                    scoringConsistency = Fin 50, defensiveStrength = Fin 50,
                    attackingStrength = Fin 50 \<rparr>"

definition clamp100 :: "jsnum \<Rightarrow> jsnum" where
  "clamp100 x = js_min (Fin 100) (js_max (Fin 0) x)"

text \<open>The second half of \<open>analyzeTeamStatistics\<close>: the loop, the neutral result when
  nothing was weighed, and the normalisation.\<close>

definition blend :: "(int \<times> TeamStatistics \<times> real) list \<Rightarrow> StatisticalAnalysis" where
  "blend multiSeasonData =
     (case foldl stats_step (zeroStats, 0) multiSeasonData of
        (weightedStats, totalWeight) \<Rightarrow>
          if totalWeight = 0 then neutralStats
          else \<lparr> homeAdvantage = clamp100 (js_div (homeAdvantage weightedStats) (Fin totalWeight)),
                 goalDifferential = js_div (goalDifferential weightedStats) (Fin totalWeight),
                 cleanSheetRatio =
                   clamp100 (js_div (cleanSheetRatio weightedStats) (Fin totalWeight)),
                 scoringConsistency =
                   clamp100 (js_div (scoringConsistency weightedStats) (Fin totalWeight)),
                 defensiveStrength =
                   clamp100 (js_div (defensiveStrength weightedStats) (Fin totalWeight)),
                 attackingStrength =
                   clamp100 (js_div (attackingStrength weightedStats) (Fin totalWeight)) \<rparr>)"

definition analyzeTeamStatistics :: "DataSource \<Rightarrow> int \<Rightarrow> error + StatisticalAnalysis" where
  "analyzeTeamStatistics src teamId =
     catchE (bindE (collectSeasonData src teamId) (\<lambda>multiSeasonData. Inr (blend multiSeasonData)))
            neutralStats"

section \<open>Outcome scorer\<close>

definition HOME_ADVANTAGE_FACTOR :: real where "HOME_ADVANTAGE_FACTOR = 0.15"
definition FORM_WEIGHT :: real where "FORM_WEIGHT = 0.4"
definition STATS_WEIGHT :: real where "STATS_WEIGHT = 0.35"

definition homeWinLogit :: "MatchContext \<Rightarrow> jsnum" where
  "homeWinLogit context =
     (let homeFormDiff = js_sub (formScore (homeForm context)) (formScore (awayForm context));
          goalDiff = js_sub (goalDifferential (homeStats context))
                            (goalDifferential (awayStats context));
          attackDefBalance = js_sub (attackingStrength (homeStats context))
                                    (defensiveStrength (awayStats context));
          cleanSheetDiff = js_sub (cleanSheetRatio (homeStats context))
                                  (cleanSheetRatio (awayStats context));
          homeAdv = homeAdvantage_ctx context
      in js_add (js_add (js_add (js_add (js_add
           (js_mul homeFormDiff (Fin 0.02))
           (js_mul goalDiff (Fin 0.01)))
           (js_mul attackDefBalance (Fin 0.015)))
           (js_mul cleanSheetDiff (Fin 0.008)))
           (js_mul homeAdv (Fin 0.5)))
           (Fin 0.1))"

definition calculateMLProbability :: "MatchContext \<Rightarrow> MLProbability" where
  "calculateMLProbability context =
     (let logit = homeWinLogit context;
          homeWinProb = js_div (Fin 1) (js_add (Fin 1) (js_exp (js_neg logit)));
          awayWinLogit = js_mul (js_neg logit) (Fin 0.8);
          awayWinProb = js_div (Fin 1) (js_add (Fin 1) (js_exp (js_neg awayWinLogit)));
          drawProb = js_sub (js_sub (Fin 1) homeWinProb) awayWinProb;
          total = js_add (js_add homeWinProb drawProb) awayWinProb
      in \<lparr> homeWin = js_div homeWinProb total,
           draw = js_max (Fin 0.1) (js_div drawProb total),
           awayWin = js_div awayWinProb total \<rparr>)"

definition generateMatchContext :: "DataSource \<Rightarrow> Fixture \<Rightarrow> error + MatchContext" where
  "generateMatchContext src fx =
     (let home = teams_home fx; away = teams_away fx
      in bindE (analyzeTeamForm src (id_team home) 5) (\<lambda>hForm.
         bindE (analyzeTeamForm src (id_team away) 5) (\<lambda>aForm.
         bindE (analyzeTeamStatistics src (id_team home)) (\<lambda>hStats.
         bindE (analyzeTeamStatistics src (id_team away)) (\<lambda>aStats.
         bindE (getHeadToHeadRecords src (id_team home) (id_team away) 10) (\<lambda>headToHead.
           Inr \<lparr> homeTeam = home, awayTeam = away, fixture = fx,
                 homeForm = hForm, awayForm = aForm, homeStats = hStats, awayStats = aStats,
                 headToHeadRecord = headToHead,
                 homeAdvantage_ctx = Fin (HOME_ADVANTAGE_FACTOR * 100) \<rparr>))))))"

definition formDifference :: "MatchContext \<Rightarrow> jsnum" where
  "formDifference context = js_sub (formScore (homeForm context)) (formScore (awayForm context))"

definition homeFormScore_of :: "jsnum \<Rightarrow> jsnum" where
  "homeFormScore_of d = js_max (Fin 0) (js_min (Fin 100) (js_add (Fin 50) d))"

definition awayFormScore_of :: "jsnum \<Rightarrow> jsnum" where
  "awayFormScore_of d = js_max (Fin 0) (js_min (Fin 100) (js_sub (Fin 50) d))"

definition goalDiffFactor_of :: "MatchContext \<Rightarrow> jsnum" where
  "goalDiffFactor_of context =
     js_max (Fin 0) (js_min (Fin 100) (js_add (Fin 50)
       (js_mul (js_sub (goalDifferential (homeStats context))
                       (goalDifferential (awayStats context))) (Fin 2))))"

definition homeScore_of :: "jsnum \<Rightarrow> StatisticalAnalysis \<Rightarrow> jsnum \<Rightarrow> jsnum" where
  "homeScore_of hfs stats h2h =
     js_add (js_add (js_add
       (js_mul hfs (Fin FORM_WEIGHT))
       (js_mul (js_div (js_add (attackingStrength stats) (defensiveStrength stats)) (Fin 2))
               (Fin STATS_WEIGHT)))
       (js_mul h2h (Fin 0.1)))
       (js_mul (Fin (HOME_ADVANTAGE_FACTOR * 100)) (Fin 0.15))"

definition awayScore_of :: "jsnum \<Rightarrow> StatisticalAnalysis \<Rightarrow> jsnum \<Rightarrow> jsnum" where
  "awayScore_of afs stats h2h =
     js_add (js_add
       (js_mul afs (Fin FORM_WEIGHT))
       (js_mul (js_div (js_add (attackingStrength stats) (defensiveStrength stats)) (Fin 2))
               (Fin STATS_WEIGHT)))
       (js_mul (js_sub (Fin 100) h2h) (Fin 0.1))"

definition scoreDifference :: "MatchContext \<Rightarrow> jsnum \<Rightarrow> jsnum" where
  "scoreDifference context h2h =
     js_sub (homeScore_of (homeFormScore_of (formDifference context)) (homeStats context) h2h)
            (awayScore_of (awayFormScore_of (formDifference context)) (awayStats context) h2h)"

definition maxProb_of :: "MLProbability \<Rightarrow> jsnum" where
  "maxProb_of mlProbs = js_max (js_max (homeWin mlProbs) (draw mlProbs)) (awayWin mlProbs)"

text \<open>The decision of \<open>predictMatch\<close>: the outcome and the confidence before rounding.\<close>

definition decide :: "jsnum \<Rightarrow> MLProbability \<Rightarrow> outcome \<times> jsnum" where
  "decide diff mlProbs =
     (if js_gt diff (Fin 10) then (HOME_WIN, js_min (Fin 95) (js_add (Fin 60) (js_div diff (Fin 2))))
      else if js_lt diff (Fin (- 10))
        then (AWAY_WIN, js_min (Fin 95) (js_add (Fin 60) (js_div (js_abs diff) (Fin 2))))
      else
        let maxProb = maxProb_of mlProbs
        in ((if js_eq maxProb (homeWin mlProbs) then HOME_WIN
             else if js_eq maxProb (awayWin mlProbs) then AWAY_WIN
             else DRAW),
            js_min (Fin 75) (js_add (Fin 45) (js_mul maxProb (Fin 30)))))"

definition predictFromContext :: "MatchContext \<Rightarrow> jsnum \<Rightarrow> PredictionResult" where
  "predictFromContext context h2h =
     (let mlProbs = calculateMLProbability context
      in case decide (scoreDifference context h2h) mlProbs of
           (pred, conf) \<Rightarrow>
             \<lparr> prediction = pred,
               confidence = js_round conf,
               factors = \<lparr> homeFormScore = homeFormScore_of (formDifference context),
                           awayFormScore = awayFormScore_of (formDifference context),
                           headToHeadScore = h2h,
                           homeAdvantage_f = Fin (HOME_ADVANTAGE_FACTOR * 100),
                           goalDifferenceFactor = goalDiffFactor_of context \<rparr> \<rparr>)"

definition fallbackPrediction :: PredictionResult where
  "fallbackPrediction =
     \<lparr> prediction = DRAW, confidence = Fin 30,
       factors = \<lparr> homeFormScore = Fin 50, awayFormScore = Fin 50, headToHeadScore = Fin 50,
                   homeAdvantage_f = Fin 0, goalDifferenceFactor = Fin 50 \<rparr> \<rparr>"

text \<open>The body of the \<open>try\<close> block of \<open>predictMatch\<close>, and \<open>predictMatch\<close> itself.\<close>

definition predictMatch_try :: "DataSource \<Rightarrow> Fixture \<Rightarrow> error + PredictionResult" where
  "predictMatch_try src fx =
     bindE (generateMatchContext src fx) (\<lambda>context.
     bindE (analyzeHeadToHead src (id_team (homeTeam context)) (id_team (awayTeam context)))
       (\<lambda>h2h. Inr (predictFromContext context h2h)))"

definition predictMatch :: "DataSource \<Rightarrow> Fixture \<Rightarrow> error + PredictionResult" where
  "predictMatch src fx = catchE (predictMatch_try src fx) fallbackPrediction"

section \<open>Specification-level notions\<close>

text \<open>Finite numbers, and the contexts all of whose scored fields are finite.\<close>

fun is_fin :: "jsnum \<Rightarrow> bool" where
  "is_fin (Fin a) = True"
| "is_fin x = False"

definition finite_context :: "MatchContext \<Rightarrow> bool" where
  "finite_context context =
     (is_fin (formScore (homeForm context)) \<and> is_fin (formScore (awayForm context))
      \<and> is_fin (goalDifferential (homeStats context)) \<and> is_fin (goalDifferential (awayStats context))
      \<and> is_fin (cleanSheetRatio (homeStats context)) \<and> is_fin (cleanSheetRatio (awayStats context))
      \<and> is_fin (attackingStrength (homeStats context)) \<and> is_fin (attackingStrength (awayStats context))
      \<and> is_fin (defensiveStrength (homeStats context)) \<and> is_fin (defensiveStrength (awayStats context))
      \<and> is_fin (homeAdvantage_ctx context))"

definition in_range :: "jsnum \<Rightarrow> bool" where
  "in_range x = (case x of Fin y \<Rightarrow> 0 \<le> y \<and> y \<le> 100 | _ \<Rightarrow> False)"

text \<open>
  The blend of section 4.2 of the specification, in its words: over the seasons that
  contribute (those passing the guard of the loop), each metric is the sum of
  metric times weight, divided by the sum of the weights. Sums of JavaScript numbers add
  from the left, starting at 0.
\<close>

definition contributing :: "(int \<times> TeamStatistics \<times> real) list \<Rightarrow> (int \<times> TeamStatistics \<times> real) list" where
  "contributing msd = filter (\<lambda>e. qualifies (fst (snd e))) msd"

definition js_sum :: "jsnum list \<Rightarrow> jsnum" where
  "js_sum xs = foldl js_add (Fin 0) xs"

definition term_of :: "(StatisticalAnalysis \<Rightarrow> jsnum) \<Rightarrow> int \<times> TeamStatistics \<times> real \<Rightarrow> jsnum" where
  "term_of metric e = js_mul (metric (season_metrics (fst (snd e)))) (Fin (snd (snd e)))"

definition weighted_sum ::
    "(StatisticalAnalysis \<Rightarrow> jsnum) \<Rightarrow> (int \<times> TeamStatistics \<times> real) list \<Rightarrow> jsnum" where
  "weighted_sum metric msd =
     js_sum (map (term_of metric) (contributing msd))"

definition total_weight :: "(int \<times> TeamStatistics \<times> real) list \<Rightarrow> real" where
  "total_weight msd = sum_list (map (\<lambda>e. snd (snd e)) (contributing msd))"

definition weight_normalized ::
    "(StatisticalAnalysis \<Rightarrow> jsnum) \<Rightarrow> (int \<times> TeamStatistics \<times> real) list \<Rightarrow> jsnum" where
  "weight_normalized metric msd = js_div (weighted_sum metric msd) (Fin (total_weight msd))"


text \<open>A record whose counts are those of real matches: clean sheets and matches
  without a goal do not exceed the matches played, nothing is negative, and at least one
  match was played at home.\<close>

definition consistent :: "TeamStatistics \<Rightarrow> bool" where
  "consistent st =
     (0 \<le> or0 (clean_sheets st) \<and> or0 (clean_sheets st) \<le> or0 (played st)
      \<and> 0 \<le> or0 (failed_to_score st) \<and> or0 (failed_to_score st) \<le> or0 (played st)
      \<and> 0 \<le> or0 (goals_for st) \<and> 0 \<le> or0 (goals_against st)
      \<and> 0 \<le> or0 (home_wins st) \<and> 0 \<le> or0 (home_draws st) \<and> 0 \<le> or0 (home_losses st)
      \<and> 0 < or0 (home_wins st) + or0 (home_draws st) + or0 (home_losses st))"

text \<open>
  The head-to-head points of section 4.3, in its words: for each match team 1 earns 3
  points for a win, 1 for a draw and 0 for a loss, its goals being the home goals when it
  was the home side.
\<close>

definition team1_goals :: "int \<Rightarrow> Fixture \<Rightarrow> int \<times> int" where
  "team1_goals team1Id m =
     (if id_team (teams_home m) = team1Id then (or0 (goals_home m), or0 (goals_away m))
      else (or0 (goals_away m), or0 (goals_home m)))"

definition team1_points :: "int \<Rightarrow> Fixture \<Rightarrow> int" where
  "team1_points team1Id m =
     (case team1_goals team1Id m of (g1, g2) \<Rightarrow> if g1 > g2 then 3 else if g1 = g2 then 1 else 0)"

definition pointsEarned :: "int \<Rightarrow> Fixture list \<Rightarrow> int" where
  "pointsEarned team1Id ms = sum_list (map (team1_points team1Id) ms)"

text \<open>
  Steps 3 and 4 of section 4.5 over the reals: the sigmoid, and the decision as a
  function of the score difference and the logit, giving the outcome and the confidence
  before rounding.
\<close>

definition sigmoid :: "real \<Rightarrow> real" where
  "sigmoid x = 1 / (1 + exp (- x))"

definition decision :: "real \<Rightarrow> real \<Rightarrow> outcome \<times> real" where
  "decision diff L =
     (if 10 < diff then (HOME_WIN, min 95 (60 + diff / 2))
      else if diff < - 10 then (AWAY_WIN, min 95 (60 + \<bar>diff\<bar> / 2))
      else
        let h = sigmoid L; a = sigmoid (- L * 0.8);
            d = max (1 / 10) (1 - h - a); m = max (max h d) a
        in ((if m = h then HOME_WIN else if m = a then AWAY_WIN else DRAW),
            min 75 (45 + m * 30)))"

section \<open>Concrete inputs\<close>

text \<open>A deployment without an API key (every remote request throws), in September 2025,
  so that the configured seasons are 2025, 2024 and 2023.\<close>

definition ex_api :: ApiFootball where
  "ex_api = \<lparr> hasApiKey = False, getTeamStatistics_api = (\<lambda>t s. Inl Rejected),
             now_year = 2025, now_month = 9 \<rparr>"

definition team33 :: Team where
  "team33 = \<lparr> id_team = 33, name_team = ''Manchester United'' \<rparr>"

definition team34 :: Team where
  "team34 = \<lparr> id_team = 34, name_team = ''Newcastle United'' \<rparr>"

definition team35 :: Team where
  "team35 = \<lparr> id_team = 35, name_team = ''Bournemouth'' \<rparr>"

text \<open>The first mock fixture of database.ts: team 33 at home to team 34, not started.\<close>

definition fx1001 :: Fixture where
  "fx1001 = \<lparr> id_fixture = 1001, date = 2000, status_short = ''NS'', teams_home = team33,
              teams_away = team34, goals_home = None, goals_away = None \<rparr>"

text \<open>Team 33 after the first round of season 2025: one match played, away, won 1-0.\<close>

definition awayOnly :: TeamStatistics where
  "awayOnly = \<lparr> team_id = 33, season = 2025, played = Some 1, home_wins = Some 0,
                home_draws = Some 0, home_losses = Some 0, goal_difference = Some 1,
                clean_sheets = Some 1, failed_to_score = Some 0, goals_for = Some 1,
                goals_against = Some 0 \<rparr>"

definition db_awayOnly :: MockDatabase where
  "db_awayOnly = \<lparr> fixtures = [], teamStatistics = [awayOnly] \<rparr>"

text \<open>An empty database, and the context built from it for fixture 1001: both forms are
  the result for a team without history, both statistics the neutral ones.\<close>

definition db_empty :: MockDatabase where
  "db_empty = \<lparr> fixtures = [], teamStatistics = [] \<rparr>"

definition noHistoryForm :: FormAnalysis where
  "noHistoryForm = \<lparr> wins = 0, draws = 0, losses = 0, goalsFor = 0, goalsAgainst = 0,
                   points = 0, formScore = Fin 0 \<rparr>"

definition ctx_noHistory :: MatchContext where
  "ctx_noHistory = \<lparr> homeTeam = team33, awayTeam = team34, fixture = fx1001,
       homeForm = noHistoryForm, awayForm = noHistoryForm,
       homeStats = neutralStats, awayStats = neutralStats, headToHeadRecord = [],
       homeAdvantage_ctx = Fin 15 \<rparr>"

text \<open>A season record that exists but does not qualify: no match played yet.\<close>

definition unplayed :: TeamStatistics where
  "unplayed = \<lparr> team_id = 33, season = 2025, played = Some 0, home_wins = Some 0,
                home_draws = Some 0, home_losses = Some 0, goal_difference = Some 0,
                clean_sheets = Some 0, failed_to_score = Some 0, goals_for = Some 0,
                goals_against = Some 0 \<rparr>"

definition db_unplayed :: MockDatabase where
  "db_unplayed = \<lparr> fixtures = [], teamStatistics = [unplayed] \<rparr>"







text \<open>Team 33 has won its only completed match, 2-0 at home to team 35.\<close>

definition fx900 :: Fixture where
  "fx900 = \<lparr> id_fixture = 900, date = 1000, status_short = ''FT'', teams_home = team33,
             teams_away = team35, goals_home = Some 2, goals_away = Some 0 \<rparr>"

definition db_oneWin :: MockDatabase where
  "db_oneWin = \<lparr> fixtures = [fx900, fx1001], teamStatistics = [] \<rparr>"

definition oneWinForm :: FormAnalysis where
  "oneWinForm = \<lparr> wins = 1, draws = 0, losses = 0, goalsFor = 2, goalsAgainst = 0,
                  points = 3, formScore = Fin 20 \<rparr>"

definition ctx_oneWin :: MatchContext where
  "ctx_oneWin = \<lparr> homeTeam = team33, awayTeam = team34, fixture = fx1001,
       homeForm = oneWinForm, awayForm = noHistoryForm,
       homeStats = neutralStats, awayStats = neutralStats, headToHeadRecord = [],
       homeAdvantage_ctx = Fin 15 \<rparr>"






section \<open>Properties\<close>

lemmas js_defs = js_sub_def js_gt_def js_eq_def num_def clamp100_def

lemmas err_defs = bindE_def catchE_def

lemmas Database_defs = Database_def Database_getTeamRecentForm_def Database_getHeadToHeadRecords_def
  Database_getTeamStatistics_def h2h_filter_def

lemma is_fin_iff: "is_fin x \<longleftrightarrow> (\<exists>a. x = Fin a)"
  by (cases x) simp_all

lemma clamp100_Fin: "clamp100 (Fin x) = Fin (min 100 (max 0 x))"
  by (simp add: clamp100_def)

lemma clamp100_range: "clamp100 x = NaN \<or> (\<exists>y. clamp100 x = Fin y \<and> 0 \<le> y \<and> y \<le> 100)"
  by (cases x) (simp_all add: clamp100_def)

lemma ratio_range:
  fixes a p :: real
  assumes "0 \<le> a" "a \<le> p" "0 < p"
  shows "0 \<le> a / p * 100 \<and> a / p * 100 \<le> 100"
proof
  show "0 \<le> a / p * 100" using assms by simp
  show "a / p * 100 \<le> 100" using assms by (simp add: field_simps)
qed

subsection \<open>Form analyzer\<close>

lemma form_step_total:
  "form_step t (w, d, l, gf, ga) m = (w', d', l', gf', ga') \<Longrightarrow>
     w \<le> w' \<and> d \<le> d' \<and> l \<le> l' \<and> w' + d' + l' = w + d + l + 1"
  by (auto simp: form_step_def Let_def split: if_splits)

lemma foldl_form_step:
  "foldl (form_step t) (w, d, l, gf, ga) ms = (w', d', l', gf', ga') \<Longrightarrow>
     w \<le> w' \<and> d \<le> d' \<and> l \<le> l' \<and> w' + d' + l' = w + d + l + int (length ms)"
proof (induction ms arbitrary: w d l gf ga)
  case Nil
  then show ?case by simp
next
  case (Cons m ms)
  obtain w1 d1 l1 gf1 ga1 where s: "form_step t (w, d, l, gf, ga) m = (w1, d1, l1, gf1, ga1)"
    by (metis prod_cases5)
  from Cons.prems have "foldl (form_step t) (w1, d1, l1, gf1, ga1) ms = (w', d', l', gf', ga')"
    by (simp add: s)
  from Cons.IH [OF this] form_step_total [OF s] show ?case by auto
qed

lemma form_loop_counts:
  assumes "form_loop t ms = (w, d, l, gf, ga)"
  shows "0 \<le> w \<and> 0 \<le> d \<and> 0 \<le> l \<and> w + d + l = int (length ms)"
  using foldl_form_step [of t 0 0 0 0 0 ms w d l gf ga] assms by (simp add: form_loop_def)

text \<open>With a positive match count the analyzer always returns, and the score is finite.\<close>

lemma analyzeTeamForm_returns:
  "\<exists>fa x. analyzeTeamForm src t (Suc n) = Inr fa \<and> formScore fa = Fin x \<and> 0 \<le> x"
proof (cases "getTeamRecentForm src t (Suc n)")
  case (Inl e)
  then show ?thesis by (simp add: analyzeTeamForm_def err_defs neutralForm_def)
next
  case (Inr ms)
  obtain w d l gf ga where fl: "form_loop t ms = (w, d, l, gf, ga)" by (metis prod_cases5)
  from form_loop_counts [OF fl] have "0 \<le> w * 3 + d" by simp
  then show ?thesis using Inr fl
    by (simp add: analyzeTeamForm_def err_defs Let_def num_def)
qed

lemma points_bound:
  fixes w d l len N :: int
  assumes "0 \<le> w" "0 \<le> d" "0 \<le> l" "w + d + l = len" "len \<le> N"
  shows "w * 3 + d \<le> 3 * N"
  using assms by linarith

text \<open>On the database, which returns at most the requested number of matches, the score
  lies in [0,100].\<close>

lemma Database_form_score_range:
  "\<exists>fa x. analyzeTeamForm (Database db api) t (Suc n) = Inr fa \<and> formScore fa = Fin x
      \<and> 0 \<le> x \<and> x \<le> 100"
proof -
  let ?ms = "Database_getTeamRecentForm db t (Suc n)"
  have len: "length ?ms \<le> Suc n" by (simp add: Database_getTeamRecentForm_def)
  obtain w d l gf ga where fl: "form_loop t ?ms = (w, d, l, gf, ga)" by (metis prod_cases5)
  from len have li: "int (length ?ms) \<le> int (Suc n)" by (simp only: of_nat_le_iff)
  from form_loop_counts [OF fl]
  have cnt: "0 \<le> w" "0 \<le> d" "0 \<le> l" "w + d + l = int (length ?ms)" by simp_all
  have b1: "0 \<le> w * 3 + d" using cnt by linarith
  have b2: "w * 3 + d \<le> 3 * int (Suc n)" by (rule points_bound [OF cnt li])
  have p: "real_of_int (3 * int (Suc n)) = real (Suc n) * 3" by simp
  have "real_of_int (w * 3 + d) \<le> real_of_int (3 * int (Suc n))"
    using b2 by (simp only: of_int_le_iff)
  then have a1: "real_of_int (w * 3 + d) \<le> real (Suc n) * 3" by (simp only: p)
  have a0: "0 \<le> real_of_int (w * 3 + d)" using b1 by (simp only: of_int_0_le_iff)
  have pp: "0 < real (Suc n) * 3" by simp
  from ratio_range [OF a0 a1 pp]
  have lo: "0 \<le> real_of_int (w * 3 + d) / (real (Suc n) * 3) * 100"
    and hi: "real_of_int (w * 3 + d) / (real (Suc n) * 3) * 100 \<le> 100" by simp_all
  have "getTeamRecentForm (Database db api) t (Suc n) = Inr ?ms" by (simp add: Database_def)
  then show ?thesis using fl lo hi
    by (simp add: analyzeTeamForm_def err_defs Let_def num_def)
qed

text \<open>
  Claim C2 says that a team with no completed match gets the neutral form: score 50, all
  counts 0. The counts are 0, but the score the code computes is \<open>0 / 15 * 100 = 0\<close>: the
  neutral 50 is returned only from the \<open>catch\<close> block, and \<open>analyzeTeamForm\<close> has no
  test for an empty history as \<open>analyzeHeadToHead\<close> has.
\<close>

theorem analyzeTeamForm_no_history_scores_zero:
  "analyzeTeamForm (Database \<lparr> fixtures = [], teamStatistics = [] \<rparr> api) teamId 5
     = Inr \<lparr> wins = 0, draws = 0, losses = 0, goalsFor = 0, goalsAgainst = 0, points = 0,
             formScore = Fin 0 \<rparr>"
  by (simp add: analyzeTeamForm_def Database_def Database_getTeamRecentForm_def err_defs
      form_loop_def num_def)

subsection \<open>Head-to-head analyzer\<close>

lemma h2h_step_bounds: "s \<le> h2h_step t s m \<and> h2h_step t s m \<le> s + 3"
  by (simp add: h2h_step_def Let_def)

lemma foldl_h2h_step:
  "s \<le> foldl (h2h_step t) s ms \<and> foldl (h2h_step t) s ms \<le> s + 3 * int (length ms)"
proof (induction ms arbitrary: s)
  case Nil
  then show ?case by simp
next
  case (Cons m ms)
  from Cons.IH [of "h2h_step t s m"] h2h_step_bounds [of s t m] show ?case by simp
qed

lemma h2h_loop_bounds: "0 \<le> h2h_loop t ms \<and> h2h_loop t ms \<le> 3 * int (length ms)"
  using foldl_h2h_step [of 0 t ms] by (simp add: h2h_loop_def)

lemma analyzeHeadToHead_returns:
  "\<exists>x. analyzeHeadToHead src a b = Inr (Fin x) \<and> 0 \<le> x \<and> x \<le> 100"
proof (cases "getHeadToHeadRecords src a b 10")
  case (Inl e)
  then show ?thesis by (simp add: analyzeHeadToHead_def err_defs)
next
  case (Inr ms)
  show ?thesis
  proof (cases "ms = []")
    case True
    then show ?thesis using Inr by (simp add: analyzeHeadToHead_def err_defs)
  next
    case False
    then have pos: "0 < real (length ms)" by simp
    from h2h_loop_bounds [of a ms]
    have b: "0 \<le> real_of_int (h2h_loop a ms)" "real_of_int (h2h_loop a ms) \<le> 3 * real (length ms)"
      by (simp, metis of_int_le_iff of_int_mult of_int_numeral of_int_of_nat_eq)
    have "real_of_int (h2h_loop a ms) / (real (length ms) * 3) \<le> 1"
      using b pos by (simp add: field_simps)
    then have "real_of_int (h2h_loop a ms) / (real (length ms) * 3) * 100 \<le> 100" by simp
    moreover have "0 \<le> real_of_int (h2h_loop a ms) / (real (length ms) * 3) * 100"
      using b pos by simp
    ultimately show ?thesis using Inr False
      by (simp add: analyzeHeadToHead_def err_defs Let_def num_def)
  qed
qed

text \<open>The loop computes the points of the specification.\<close>

lemma h2h_step_points: "h2h_step t s m = s + team1_points t m"
  by (simp add: h2h_step_def team1_points_def team1_goals_def Let_def)

lemma foldl_h2h_points: "foldl (h2h_step t) s ms = s + pointsEarned t ms"
  by (induction ms arbitrary: s) (simp_all add: pointsEarned_def h2h_step_points)

lemma h2h_loop_points: "h2h_loop t ms = pointsEarned t ms"
  by (simp add: h2h_loop_def foldl_h2h_points)

lemma analyzeHeadToHead_cases:
  "analyzeHeadToHead src a b =
     (case getHeadToHeadRecords src a b 10 of
        Inl e \<Rightarrow> Inr (Fin 50)
      | Inr ms \<Rightarrow> if ms = [] then Inr (Fin 50)
                  else Inr (Fin (real_of_int (pointsEarned a ms) / (real (length ms) * 3) * 100)))"
  by (simp add: analyzeHeadToHead_def err_defs Let_def num_def h2h_loop_points split: sum.splits)







subsection \<open>Statistical analyzer\<close>

text \<open>The loop computes, field by field, the weighted sums of the specification.\<close>

lemma stats_step_skip: "\<not> qualifies st \<Longrightarrow> stats_step (ws, tw) (s, st, w) = (ws, tw)"
  by (simp add: stats_step_def)

lemma stats_step_qualifies:
  "qualifies st \<Longrightarrow> stats_step (ws, tw) (s, st, w) =
     (\<lparr> homeAdvantage = js_add (homeAdvantage ws) (term_of homeAdvantage (s, st, w)),
        goalDifferential = js_add (goalDifferential ws) (term_of goalDifferential (s, st, w)),
        cleanSheetRatio = js_add (cleanSheetRatio ws) (term_of cleanSheetRatio (s, st, w)),
        scoringConsistency = js_add (scoringConsistency ws) (term_of scoringConsistency (s, st, w)),
        defensiveStrength = js_add (defensiveStrength ws) (term_of defensiveStrength (s, st, w)),
        attackingStrength = js_add (attackingStrength ws) (term_of attackingStrength (s, st, w)) \<rparr>,
      tw + w)"
  by (simp add: stats_step_def term_of_def Let_def)

lemma foldl_stats_step:
  "foldl stats_step (ws, tw) msd =
     (\<lparr> homeAdvantage = foldl js_add (homeAdvantage ws) (map (term_of homeAdvantage) (contributing msd)),
        goalDifferential = foldl js_add (goalDifferential ws) (map (term_of goalDifferential) (contributing msd)),
        cleanSheetRatio = foldl js_add (cleanSheetRatio ws) (map (term_of cleanSheetRatio) (contributing msd)),
        scoringConsistency = foldl js_add (scoringConsistency ws) (map (term_of scoringConsistency) (contributing msd)),
        defensiveStrength = foldl js_add (defensiveStrength ws) (map (term_of defensiveStrength) (contributing msd)),
        attackingStrength = foldl js_add (attackingStrength ws) (map (term_of attackingStrength) (contributing msd)) \<rparr>,
      tw + sum_list (map (\<lambda>e. snd (snd e)) (contributing msd)))"
proof (induction msd arbitrary: ws tw)
  case Nil
  show ?case by (simp add: contributing_def)
next
  case (Cons e msd)
  obtain s st w where e: "e = (s, st, w)" by (cases e) auto
  show ?case
  proof (cases "qualifies st")
    case True
    then show ?thesis
      by (simp add: e Cons.IH stats_step_qualifies contributing_def add.assoc)
  next
    case False
    then show ?thesis
      by (simp add: e Cons.IH stats_step_skip contributing_def)
  qed
qed

lemma blend_eq:
  "blend msd =
     (if total_weight msd = 0 then neutralStats
      else \<lparr> homeAdvantage = clamp100 (weight_normalized homeAdvantage msd),
             goalDifferential = weight_normalized goalDifferential msd,
             cleanSheetRatio = clamp100 (weight_normalized cleanSheetRatio msd),
             scoringConsistency = clamp100 (weight_normalized scoringConsistency msd),
             defensiveStrength = clamp100 (weight_normalized defensiveStrength msd),
             attackingStrength = clamp100 (weight_normalized attackingStrength msd) \<rparr>)"
  by (simp add: blend_def foldl_stats_step zeroStats_def weight_normalized_def weighted_sum_def
      js_sum_def total_weight_def)

lemma blend_no_contribution: "contributing msd = [] \<Longrightarrow> blend msd = neutralStats"
  by (simp add: blend_eq total_weight_def)

text \<open>Every entry of the collected list is a record returned for a configured season,
  so its weight is positive.\<close>

lemma api_collect_weights:
  "e \<in> set (api_collect api t ss) \<Longrightarrow> (fst e, snd (snd e)) \<in> set ss \<and> getTeamStatistics_api api t (fst e) = Inr (Some (fst (snd e)))"
  by (induction api t ss rule: api_collect.induct) (auto split: sum.splits option.splits)

lemma db_collect_weights:
  "e \<in> set (db_collect src t ss) \<Longrightarrow> (fst e, snd (snd e)) \<in> set ss \<and> getTeamStatistics src t (fst e) = Inr (Some (fst (snd e)))"
  by (induction src t ss rule: db_collect.induct) (auto split: sum.splits option.splits)

lemma collectSeasonData_entries:
  assumes "collectSeasonData src t = Inr msd" "e \<in> set msd"
  shows "\<exists>api. import_api_football src = Inr api \<and> (fst e, snd (snd e)) \<in> set (getAnalysisSeasons api)
          \<and> (getTeamStatistics src t (fst e) = Inr (Some (fst (snd e)))
             \<or> getTeamStatistics_api api t (fst e) = Inr (Some (fst (snd e))))"
  using assms
  by (auto simp: collectSeasonData_def bindE_def Let_def getMultiSeasonTeamStatistics_def
      split: sum.splits if_splits dest: api_collect_weights db_collect_weights)

lemma collectSeasonData_weight_pos:
  assumes "collectSeasonData src t = Inr msd" "e \<in> set msd"
  shows "0 < snd (snd e)"
proof -
  from collectSeasonData_entries [OF assms] obtain api where
    "(fst e, snd (snd e)) \<in> set (getAnalysisSeasons api)" by blast
  then show ?thesis by (auto simp: getAnalysisSeasons_def Let_def)
qed

lemma sum_list_pos_weights:
  fixes xs :: "('a \<times> 'b \<times> real) list"
  assumes "\<forall>e\<in>set xs. 0 < snd (snd e)" "xs \<noteq> []"
  shows "0 < sum_list (map (\<lambda>e. snd (snd e)) xs)"
  using assms
proof (induction xs)
  case Nil
  then show ?case by simp
next
  case (Cons x xs)
  show ?case
  proof (cases "xs = []")
    case True
    then show ?thesis using Cons.prems by simp
  next
    case False
    with Cons have "0 < sum_list (map (\<lambda>e. snd (snd e)) xs)" by simp
    moreover from Cons.prems have "0 < snd (snd x)" by simp
    ultimately show ?thesis by simp
  qed
qed

lemma total_weight_pos:
  assumes "collectSeasonData src t = Inr msd" "contributing msd \<noteq> []"
  shows "0 < total_weight msd"
proof -
  have "\<forall>e\<in>set (contributing msd). 0 < snd (snd e)"
    using collectSeasonData_weight_pos [OF assms(1)] by (auto simp: contributing_def)
  from sum_list_pos_weights [OF this assms(2)] show ?thesis by (simp add: total_weight_def)
qed

text \<open>All fields but \<open>homeAdvantage\<close> are finite, and the clamped ones lie in [0,100].\<close>

lemma is_fin_js_add: "is_fin a \<Longrightarrow> is_fin b \<Longrightarrow> is_fin (js_add a b)"
  by (auto simp: is_fin_iff)

lemma is_fin_foldl_js_add:
  "is_fin a \<Longrightarrow> \<forall>x\<in>set xs. is_fin x \<Longrightarrow> is_fin (foldl js_add a xs)"
  by (induction xs arbitrary: a) (simp_all add: is_fin_js_add)

lemma season_metrics_finite:
  assumes "qualifies st"
  shows "is_fin (goalDifferential (season_metrics st)) \<and> is_fin (cleanSheetRatio (season_metrics st))
       \<and> is_fin (scoringConsistency (season_metrics st)) \<and> is_fin (defensiveStrength (season_metrics st))
       \<and> is_fin (attackingStrength (season_metrics st))"
  using assms by (auto simp: qualifies_def season_metrics_def Let_def js_defs split: option.splits)

lemma is_fin_term_of: "is_fin (metric (season_metrics (fst (snd e)))) \<Longrightarrow> is_fin (term_of metric e)"
  by (auto simp: term_of_def is_fin_iff)

lemma is_fin_weighted_sum:
  assumes "\<And>st. qualifies st \<Longrightarrow> is_fin (metric (season_metrics st))"
  shows "is_fin (weighted_sum metric msd)"
  unfolding weighted_sum_def js_sum_def
  by (rule is_fin_foldl_js_add) (auto simp: contributing_def intro!: is_fin_term_of assms)

lemma is_fin_weight_normalized:
  assumes "\<And>st. qualifies st \<Longrightarrow> is_fin (metric (season_metrics st))" "total_weight msd \<noteq> 0"
  shows "is_fin (weight_normalized metric msd)"
  using is_fin_weighted_sum [of metric msd, OF assms(1)] assms(2)
  by (auto simp: weight_normalized_def is_fin_iff)

lemma is_fin_clamp100: "is_fin x \<Longrightarrow> \<exists>y. clamp100 x = Fin y \<and> 0 \<le> y \<and> y \<le> 100"
  by (auto simp: is_fin_iff clamp100_Fin)

lemma blend_finite:
  "\<exists>g c s d a. goalDifferential (blend msd) = Fin g
     \<and> cleanSheetRatio (blend msd) = Fin c \<and> 0 \<le> c \<and> c \<le> 100
     \<and> scoringConsistency (blend msd) = Fin s \<and> 0 \<le> s \<and> s \<le> 100
     \<and> defensiveStrength (blend msd) = Fin d \<and> 0 \<le> d \<and> d \<le> 100
     \<and> attackingStrength (blend msd) = Fin a \<and> 0 \<le> a \<and> a \<le> 100"
proof (cases "total_weight msd = 0")
  case True
  then show ?thesis by (simp add: blend_eq neutralStats_def)
next
  case False
  have g: "is_fin (weight_normalized goalDifferential msd)"
    by (rule is_fin_weight_normalized) (simp_all add: season_metrics_finite False)
  have c: "is_fin (weight_normalized cleanSheetRatio msd)"
    by (rule is_fin_weight_normalized) (simp_all add: season_metrics_finite False)
  have s: "is_fin (weight_normalized scoringConsistency msd)"
    by (rule is_fin_weight_normalized) (simp_all add: season_metrics_finite False)
  have d: "is_fin (weight_normalized defensiveStrength msd)"
    by (rule is_fin_weight_normalized) (simp_all add: season_metrics_finite False)
  have a: "is_fin (weight_normalized attackingStrength msd)"
    by (rule is_fin_weight_normalized) (simp_all add: season_metrics_finite False)
  from g obtain g' where "weight_normalized goalDifferential msd = Fin g'" by (auto simp: is_fin_iff)
  with is_fin_clamp100 [OF c] is_fin_clamp100 [OF s] is_fin_clamp100 [OF d] is_fin_clamp100 [OF a] False
  show ?thesis by (auto simp: blend_eq)
qed

lemma analyzeTeamStatistics_cases:
  "analyzeTeamStatistics src t =
     (case collectSeasonData src t of Inl e \<Rightarrow> Inr neutralStats | Inr msd \<Rightarrow> Inr (blend msd))"
  by (simp add: analyzeTeamStatistics_def err_defs split: sum.splits)

lemma analyzeTeamStatistics_returns:
  "\<exists>st g c d a. analyzeTeamStatistics src t = Inr st \<and> goalDifferential st = Fin g
     \<and> cleanSheetRatio st = Fin c \<and> defensiveStrength st = Fin d \<and> attackingStrength st = Fin a"
proof (cases "collectSeasonData src t")
  case (Inl e)
  then show ?thesis by (simp add: analyzeTeamStatistics_cases neutralStats_def)
next
  case (Inr msd)
  from blend_finite [of msd] show ?thesis using Inr by (auto simp: analyzeTeamStatistics_cases)
qed

text \<open>
  Claim C5: if for no configured season the database or the API holds a record with
  \<open>played > 0\<close> for the team, \<open>analyzeTeamStatistics\<close> returns the neutral statistics
  (50, 0, 0, 50, 50, 50), and not an error.
\<close>

theorem analyzeTeamStatistics_neutral_without_data:
  assumes "\<And>api ssn w st. import_api_football src = Inr api \<Longrightarrow>
             (ssn, w) \<in> set (getAnalysisSeasons api) \<Longrightarrow>
             getTeamStatistics src teamId ssn = Inr (Some st)
               \<or> getTeamStatistics_api api teamId ssn = Inr (Some st) \<Longrightarrow>
             \<not> qualifies st"
  shows "analyzeTeamStatistics src teamId
           = Inr \<lparr> homeAdvantage = Fin 50, goalDifferential = Fin 0, cleanSheetRatio = Fin 0,
                   scoringConsistency = Fin 50, defensiveStrength = Fin 50,
                   attackingStrength = Fin 50 \<rparr>"
proof (cases "collectSeasonData src teamId")
  case (Inl e)
  then show ?thesis by (simp add: analyzeTeamStatistics_cases neutralStats_def)
next
  case (Inr msd)
  have "\<not> qualifies (fst (snd e))" if "e \<in> set msd" for e
    using collectSeasonData_entries [OF Inr that] assms by blast
  then have "contributing msd = []" by (simp add: contributing_def)
  then show ?thesis using Inr
    by (simp add: analyzeTeamStatistics_cases blend_no_contribution neutralStats_def)
qed

text \<open>The theorem at a database whose only record of team 33 has no match played.\<close>

theorem analyzeTeamStatistics_neutral_without_data_witness:
  "analyzeTeamStatistics (Database db_unplayed (Inr ex_api)) 33
           = Inr \<lparr> homeAdvantage = Fin 50, goalDifferential = Fin 0, cleanSheetRatio = Fin 0,
                   scoringConsistency = Fin 50, defensiveStrength = Fin 50,
                   attackingStrength = Fin 50 \<rparr>"
proof (rule analyzeTeamStatistics_neutral_without_data)
  fix api ssn w st
  assume "import_api_football (Database db_unplayed (Inr ex_api)) = Inr api"
     and "(ssn, w) \<in> set (getAnalysisSeasons api)"
     and "getTeamStatistics (Database db_unplayed (Inr ex_api)) 33 ssn = Inr (Some st)
            \<or> getTeamStatistics_api api 33 ssn = Inr (Some st)"
  then show "\<not> qualifies st"
    by (auto simp: Database_def db_unplayed_def unplayed_def ex_api_def qualifies_def
        Database_getTeamStatistics_def getAnalysisSeasons_def getCurrentSeason_def
        split: if_splits)
qed









text \<open>On consistent records the clamp changes nothing: then every metric is the
  weight-normalised sum itself.\<close>

lemma in_range_Fin [simp]: "in_range (Fin y) \<longleftrightarrow> 0 \<le> y \<and> y \<le> 100"
  by (simp add: in_range_def)

lemma season_metrics_in_range:
  assumes q: "qualifies st" and c: "consistent st"
  shows "in_range (homeAdvantage (season_metrics st)) \<and> in_range (cleanSheetRatio (season_metrics st))
       \<and> in_range (scoringConsistency (season_metrics st))
       \<and> in_range (defensiveStrength (season_metrics st))
       \<and> in_range (attackingStrength (season_metrics st))"
proof -
  from q obtain p where p: "played st = Some p" "0 < p"
    by (auto simp: qualifies_def split: option.splits)
  let ?hw = "or0 (home_wins st)" and ?hd = "or0 (home_draws st)" and ?hl = "or0 (home_losses st)"
  have hpos: "0 < real_of_int ((?hw + ?hd + ?hl) * 3)" using c by (simp add: consistent_def)
  have "?hw * 3 + ?hd \<le> (?hw + ?hd + ?hl) * 3" "0 \<le> ?hw * 3 + ?hd"
    using c by (simp_all add: consistent_def)
  then have "real_of_int (?hw * 3 + ?hd) \<le> real_of_int ((?hw + ?hd + ?hl) * 3)"
       "0 \<le> real_of_int (?hw * 3 + ?hd)"
    by (simp_all only: of_int_le_iff of_int_0_le_iff)
  from ratio_range [OF this(2) this(1) hpos]
  have ha: "in_range (homeAdvantage (season_metrics st))"
    using hpos by (simp add: season_metrics_def Let_def js_defs)
  have pp: "0 < real_of_int p" using p by simp
  have "0 \<le> real_of_int (or0 (clean_sheets st))" "real_of_int (or0 (clean_sheets st)) \<le> real_of_int p"
    using c p by (simp_all add: consistent_def)
  from ratio_range [OF this pp]
  have cs: "in_range (cleanSheetRatio (season_metrics st))"
    using p by (simp add: season_metrics_def Let_def js_defs)
  have "0 \<le> real_of_int (p - or0 (failed_to_score st))"
       "real_of_int (p - or0 (failed_to_score st)) \<le> real_of_int p"
    using c p by (simp_all add: consistent_def)
  from ratio_range [OF this pp]
  have sc: "in_range (scoringConsistency (season_metrics st))"
    using p by (simp add: season_metrics_def Let_def js_defs)
  have "0 \<le> real_of_int (or0 (goals_against st)) / real_of_int p * 25"
    using c p by (simp add: consistent_def)
  then have df: "in_range (defensiveStrength (season_metrics st))"
    using p by (simp add: season_metrics_def Let_def js_defs)
  have "0 \<le> real_of_int (or0 (goals_for st)) / real_of_int p * 40"
    using c p by (simp add: consistent_def)
  then have at: "in_range (attackingStrength (season_metrics st))"
    using p by (simp add: season_metrics_def Let_def js_defs)
  from ha cs sc df at show ?thesis by blast
qed

lemma foldl_weighted_range:
  assumes "\<forall>e\<in>set xs. in_range (metric (season_metrics (fst (snd e)))) \<and> 0 < snd (snd e)"
  shows "\<exists>s. foldl js_add (Fin a) (map (term_of metric) xs) = Fin s
           \<and> a \<le> s \<and> s \<le> a + 100 * sum_list (map (\<lambda>e. snd (snd e)) xs)"
  using assms
proof (induction xs arbitrary: a)
  case Nil
  then show ?case by simp
next
  case (Cons e xs)
  from Cons.prems obtain y where y: "metric (season_metrics (fst (snd e))) = Fin y" "0 \<le> y" "y \<le> 100"
    and w: "0 < snd (snd e)"
    by (auto simp: in_range_def split: jsnum.splits)
  have t: "term_of metric e = Fin (y * snd (snd e))" by (simp add: term_of_def y)
  from Cons.IH [of "a + y * snd (snd e)"] Cons.prems
  obtain s where s: "foldl js_add (Fin (a + y * snd (snd e))) (map (term_of metric) xs) = Fin s"
    "a + y * snd (snd e) \<le> s" "s \<le> a + y * snd (snd e) + 100 * sum_list (map (\<lambda>e. snd (snd e)) xs)"
    by auto
  have "0 \<le> y * snd (snd e)" using y w by simp
  moreover have "y * snd (snd e) \<le> 100 * snd (snd e)" using y w by simp
  ultimately show ?case using s by (simp add: t)
qed

lemma weight_normalized_in_range:
  assumes r: "\<forall>e\<in>set (contributing msd). in_range (metric (season_metrics (fst (snd e)))) \<and> 0 < snd (snd e)"
    and pos: "0 < total_weight msd"
  shows "clamp100 (weight_normalized metric msd) = weight_normalized metric msd"
proof -
  from foldl_weighted_range [OF r, of 0] obtain s where
    s: "weighted_sum metric msd = Fin s" "0 \<le> s" "s \<le> 100 * total_weight msd"
    by (auto simp: weighted_sum_def js_sum_def total_weight_def)
  have "s / total_weight msd \<le> 100" using s(3) pos by (simp add: field_simps)
  moreover have "0 \<le> s / total_weight msd" using s(2) pos by simp
  ultimately show ?thesis using pos
    by (simp add: weight_normalized_def s(1) clamp100_Fin)
qed

lemma analyzeTeamStatistics_consistent:
  assumes col: "collectSeasonData src teamId = Inr msd" and ne: "contributing msd \<noteq> []"
    and con: "\<forall>e\<in>set (contributing msd). consistent (fst (snd e))"
  shows "analyzeTeamStatistics src teamId
           = Inr \<lparr> homeAdvantage = weight_normalized homeAdvantage msd,
                   goalDifferential = weight_normalized goalDifferential msd,
                   cleanSheetRatio = weight_normalized cleanSheetRatio msd,
                   scoringConsistency = weight_normalized scoringConsistency msd,
                   defensiveStrength = weight_normalized defensiveStrength msd,
                   attackingStrength = weight_normalized attackingStrength msd \<rparr>"
proof -
  from total_weight_pos [OF col ne] have pos: "0 < total_weight msd" .
  have m: "in_range (homeAdvantage (season_metrics (fst (snd e)))) \<and> in_range (cleanSheetRatio (season_metrics (fst (snd e))))
       \<and> in_range (scoringConsistency (season_metrics (fst (snd e))))
       \<and> in_range (defensiveStrength (season_metrics (fst (snd e))))
       \<and> in_range (attackingStrength (season_metrics (fst (snd e)))) \<and> 0 < snd (snd e)"
    if "e \<in> set (contributing msd)" for e
  proof -
    from that have "qualifies (fst (snd e))" "e \<in> set msd" by (simp_all add: contributing_def)
    with season_metrics_in_range [of "fst (snd e)"] con that collectSeasonData_weight_pos [OF col]
    show ?thesis by blast
  qed
  have a: "clamp100 (weight_normalized homeAdvantage msd) = weight_normalized homeAdvantage msd"
    by (rule weight_normalized_in_range [OF _ pos]) (simp add: m)
  have b: "clamp100 (weight_normalized cleanSheetRatio msd) = weight_normalized cleanSheetRatio msd"
    by (rule weight_normalized_in_range [OF _ pos]) (simp add: m)
  have c: "clamp100 (weight_normalized scoringConsistency msd) = weight_normalized scoringConsistency msd"
    by (rule weight_normalized_in_range [OF _ pos]) (simp add: m)
  have d: "clamp100 (weight_normalized defensiveStrength msd) = weight_normalized defensiveStrength msd"
    by (rule weight_normalized_in_range [OF _ pos]) (simp add: m)
  have e: "clamp100 (weight_normalized attackingStrength msd) = weight_normalized attackingStrength msd"
    by (rule weight_normalized_in_range [OF _ pos]) (simp add: m)
  from pos col show ?thesis
    by (simp add: analyzeTeamStatistics_cases blend_eq a b c d e)
qed

text \<open>
  Claim C7 says that the five 0-100 fields of the result lie in [0,100] and that the
  denominator of the home-advantage quotient is nonzero whenever \<open>played > 0\<close>. For a team
  that has played only away the denominator is 0, the quotient \<open>0 / 0\<close> is NaN, and NaN
  passes through the final clamp: the \<open>homeAdvantage\<close> returned is NaN.
\<close>

theorem analyzeTeamStatistics_away_only_nan:
  "analyzeTeamStatistics (Database db_awayOnly (Inr ex_api)) 33
     = Inr \<lparr> homeAdvantage = NaN, goalDifferential = Fin 1, cleanSheetRatio = Fin 100,
             scoringConsistency = Fin 100, defensiveStrength = Fin 100,
             attackingStrength = Fin 40 \<rparr>"
  by (simp add: analyzeTeamStatistics_def collectSeasonData_def Database_def db_awayOnly_def
      ex_api_def awayOnly_def err_defs getAnalysisSeasons_def getCurrentSeason_def
      Database_getTeamStatistics_def blend_def stats_step_def qualifies_def season_metrics_def
      zeroStats_def js_defs)

subsection \<open>Probability model\<close>

lemma one_plus_exp_pos: "0 < 1 + exp (x::real)"
  by (simp add: add_pos_pos)

lemma one_plus_exp_ne0 [simp]: "1 + exp (x::real) \<noteq> 0"
  using one_plus_exp_pos [of x] by simp

lemma sigmoid_pos: "0 < sigmoid x"
  by (simp add: sigmoid_def one_plus_exp_pos)

lemma sigmoid_less_one: "sigmoid x < 1"
  by (simp add: sigmoid_def one_plus_exp_pos)

lemma sigmoid_mono: "x \<le> y \<Longrightarrow> sigmoid x \<le> sigmoid y"
  unfolding sigmoid_def
  by (intro divide_left_mono mult_pos_pos one_plus_exp_pos) simp_all

lemma sigmoid_neg: "sigmoid (- x) = 1 - sigmoid x"
proof -
  have "exp x * exp (- x) = 1" by (simp add: exp_minus)
  then have "(1 + exp x) * 1 + (1 + exp (- x)) * 1  = (1 + exp x) * (1 + exp (- x))"
    by (simp add: algebra_simps)
  then have "1 / (1 + exp (- x)) + 1 / (1 + exp x) = 1"
    by (simp add: add_frac_eq)
  then show ?thesis by (simp add: sigmoid_def)
qed

lemma sigmoid_pair_ge_one:
  assumes "0 \<le> L"
  shows "1 \<le> sigmoid L + sigmoid (- L * 0.8)"
proof -
  have "L * 0.8 \<le> L" using assms by simp
  from sigmoid_mono [OF this] have "sigmoid (L * 0.8) \<le> sigmoid L" .
  moreover have "sigmoid (- L * 0.8) = 1 - sigmoid (L * 0.8)"
    using sigmoid_neg [of "L * 0.8"] by simp
  ultimately show ?thesis by simp
qed

lemma calculateMLProbability_finite:
  assumes "homeWinLogit ctx = Fin L"
  shows "calculateMLProbability ctx =
           \<lparr> homeWin = Fin (sigmoid L),
             draw = Fin (max (1 / 10) (1 - sigmoid L - sigmoid (- L * 0.8))),
             awayWin = Fin (sigmoid (- L * 0.8)) \<rparr>"
proof -
  have t: "sigmoid L + (1 - sigmoid L - sigmoid (- L * 0.8)) + sigmoid (- L * 0.8) = 1" by simp
  have a: "js_div (Fin 1) (js_add (Fin 1) (js_exp (js_neg (js_mul (js_neg (Fin L)) (Fin 0.8)))))
            = Fin (sigmoid (- L * 0.8))"
    by (simp add: sigmoid_def)
  have h: "js_div (Fin 1) (js_add (Fin 1) (js_exp (js_neg (Fin L)))) = Fin (sigmoid L)"
    by (simp add: sigmoid_def)
  show ?thesis
    unfolding calculateMLProbability_def Let_def assms a h
    by (simp add: js_sub_def t)
qed

lemma floor_applies: "(1::real) \<le> h + a \<Longrightarrow> max (1 / 10) (1 - h - a) = 1 / 10"
  by (simp add: max_def)

lemma sum_exceeds_one: "(1::real) \<le> h + a \<Longrightarrow> h + max (1 / 10) (1 - h - a) + a \<noteq> 1"
  by (simp add: max_def)

text \<open>For a logit that is not negative the unfloored draw probability is not positive, so
  the draw is 0.1 and the three values sum to at least 1.1.\<close>

lemma probabilities_with_nonnegative_logit:
  assumes "homeWinLogit ctx = Fin L" "0 \<le> L"
  shows "draw (calculateMLProbability ctx) = Fin (1 / 10)
       \<and> js_add (js_add (homeWin (calculateMLProbability ctx)) (draw (calculateMLProbability ctx)))
                (awayWin (calculateMLProbability ctx))
           = Fin (sigmoid L + 1 / 10 + sigmoid (- L * 0.8))
       \<and> 11 / 10 \<le> sigmoid L + 1 / 10 + sigmoid (- L * 0.8)"
proof -
  note p = sigmoid_pair_ge_one [OF assms(2)]
  have m: "max (1 / 10) (1 - sigmoid L - sigmoid (- L * 0.8)) = 1 / 10"
    by (rule floor_applies [OF p])
  have "11 / 10 \<le> sigmoid L + 1 / 10 + sigmoid (- L * 0.8)" using p by simp
  then show ?thesis
    unfolding calculateMLProbability_finite [OF assms(1)] m by simp
qed

subsection \<open>Match context\<close>

lemma generateMatchContext_cases:
  "generateMatchContext src fx =
     (case getHeadToHeadRecords src (id_team (teams_home fx)) (id_team (teams_away fx)) 10 of
        Inl e \<Rightarrow> Inl e
      | Inr headToHead \<Rightarrow>
          Inr \<lparr> homeTeam = teams_home fx, awayTeam = teams_away fx, fixture = fx,
                homeForm = projr (analyzeTeamForm src (id_team (teams_home fx)) 5),
                awayForm = projr (analyzeTeamForm src (id_team (teams_away fx)) 5),
                homeStats = projr (analyzeTeamStatistics src (id_team (teams_home fx))),
                awayStats = projr (analyzeTeamStatistics src (id_team (teams_away fx))),
                headToHeadRecord = headToHead,
                homeAdvantage_ctx = Fin (HOME_ADVANTAGE_FACTOR * 100) \<rparr>)"
proof -
  obtain hf where hf: "analyzeTeamForm src (id_team (teams_home fx)) 5 = Inr hf"
    using analyzeTeamForm_returns [of src "id_team (teams_home fx)" 4] by (auto simp: eval_nat_numeral)
  obtain af where af: "analyzeTeamForm src (id_team (teams_away fx)) 5 = Inr af"
    using analyzeTeamForm_returns [of src "id_team (teams_away fx)" 4] by (auto simp: eval_nat_numeral)
  obtain hs where hs: "analyzeTeamStatistics src (id_team (teams_home fx)) = Inr hs"
    using analyzeTeamStatistics_returns [of src "id_team (teams_home fx)"] by auto
  obtain as where as: "analyzeTeamStatistics src (id_team (teams_away fx)) = Inr as"
    using analyzeTeamStatistics_returns [of src "id_team (teams_away fx)"] by auto
  show ?thesis
    by (simp add: generateMatchContext_def Let_def hf af hs as bindE_def split: sum.splits)
qed

lemma generateMatchContext_finite:
  assumes "generateMatchContext src fx = Inr ctx"
  shows "finite_context ctx \<and> homeTeam ctx = teams_home fx \<and> awayTeam ctx = teams_away fx"
proof -
  obtain hf x where hf: "analyzeTeamForm src (id_team (teams_home fx)) 5 = Inr hf" "formScore hf = Fin x"
    using analyzeTeamForm_returns [of src "id_team (teams_home fx)" 4] by (auto simp: eval_nat_numeral)
  obtain af y where af: "analyzeTeamForm src (id_team (teams_away fx)) 5 = Inr af" "formScore af = Fin y"
    using analyzeTeamForm_returns [of src "id_team (teams_away fx)" 4] by (auto simp: eval_nat_numeral)
  obtain hs g c d a where hs: "analyzeTeamStatistics src (id_team (teams_home fx)) = Inr hs"
     "goalDifferential hs = Fin g" "cleanSheetRatio hs = Fin c" "defensiveStrength hs = Fin d"
     "attackingStrength hs = Fin a"
    using analyzeTeamStatistics_returns [of src "id_team (teams_home fx)"] by auto
  obtain as g' c' d' a' where as: "analyzeTeamStatistics src (id_team (teams_away fx)) = Inr as"
     "goalDifferential as = Fin g'" "cleanSheetRatio as = Fin c'" "defensiveStrength as = Fin d'"
     "attackingStrength as = Fin a'"
    using analyzeTeamStatistics_returns [of src "id_team (teams_away fx)"] by auto
  from assms show ?thesis
    by (auto simp: generateMatchContext_cases finite_context_def hf af hs as split: sum.splits)
qed

lemma finite_context_logit:
  assumes "finite_context ctx"
  shows "\<exists>L. homeWinLogit ctx = Fin L"
  using assms by (auto simp: finite_context_def is_fin_iff homeWinLogit_def Let_def js_sub_def)

lemma finite_context_formDifference:
  "finite_context ctx \<Longrightarrow> \<exists>d. formDifference ctx = Fin d"
  by (auto simp: finite_context_def is_fin_iff formDifference_def js_sub_def)

lemma homeFormScore_of_Fin: "homeFormScore_of (Fin d) = Fin (max 0 (min 100 (50 + d)))"
  by (simp add: homeFormScore_of_def)

lemma awayFormScore_of_Fin: "awayFormScore_of (Fin d) = Fin (max 0 (min 100 (50 - d)))"
  by (simp add: awayFormScore_of_def js_sub_def)

lemma finite_context_scoreDifference:
  assumes "finite_context ctx"
  shows "\<exists>d. scoreDifference ctx (Fin h) = Fin d"
  using assms
  by (auto simp: finite_context_def is_fin_iff scoreDifference_def formDifference_def js_sub_def
      homeFormScore_of_Fin awayFormScore_of_Fin homeScore_of_def awayScore_of_def)

lemma form_db_empty: "analyzeTeamForm (Database db_empty api) t 5 = Inr noHistoryForm"
  by (simp add: analyzeTeamForm_def Database_defs err_defs form_loop_def num_def db_empty_def
      noHistoryForm_def)

lemma stats_db_empty: "analyzeTeamStatistics (Database db_empty (Inr ex_api)) t = Inr neutralStats"
  by (simp add: analyzeTeamStatistics_cases collectSeasonData_def Database_defs err_defs
      db_empty_def ex_api_def getAnalysisSeasons_def getCurrentSeason_def blend_def)

lemma context_db_empty:
  "generateMatchContext (Database db_empty (Inr ex_api)) fx1001 = Inr ctx_noHistory"
proof -
  have h: "getHeadToHeadRecords (Database db_empty (Inr ex_api)) a b 10 = Inr []" for a b
    by (simp add: Database_defs db_empty_def)
  show ?thesis
    by (simp add: generateMatchContext_cases form_db_empty stats_db_empty h ctx_noHistory_def
        HOME_ADVANTAGE_FACTOR_def fx1001_def)
qed

lemma logit_noHistory: "homeWinLogit ctx_noHistory = Fin (38 / 5)"
  by (simp add: homeWinLogit_def ctx_noHistory_def noHistoryForm_def neutralStats_def Let_def
      js_sub_def)

lemma logit_noHistory_pair: "1 \<le> sigmoid (38 / 5) + sigmoid (- (38 / 5) * 0.8)"
  by (rule sigmoid_pair_ge_one) simp

text \<open>
  Claim C3 says that the draw probability is floored before the final normalisation, so
  that the three probabilities sum to 1. The code divides by the total first, which is 1,
  and applies the floor afterwards: for the context of the empty database, whose logit is
  7.6, it returns \<open>sigmoid 7.6\<close>, 0.1 and \<open>sigmoid (- 6.08)\<close>, which sum to at
  least 1.1.
\<close>

theorem calculateMLProbability_sum_exceeds_one:
  "generateMatchContext (Database db_empty (Inr ex_api)) fx1001 = Inr ctx_noHistory
   \<and> homeWinLogit ctx_noHistory = Fin (38 / 5)
   \<and> calculateMLProbability ctx_noHistory
       = \<lparr> homeWin = Fin (sigmoid (38 / 5)), draw = Fin (1 / 10),
           awayWin = Fin (sigmoid (- (38 / 5) * 0.8)) \<rparr>
   \<and> 11 / 10 \<le> sigmoid (38 / 5) + 1 / 10 + sigmoid (- (38 / 5) * 0.8)
   \<and> js_add (js_add (homeWin (calculateMLProbability ctx_noHistory))
                    (draw (calculateMLProbability ctx_noHistory)))
            (awayWin (calculateMLProbability ctx_noHistory)) \<noteq> Fin 1"
proof -
  note p = logit_noHistory_pair
  have m: "max (1 / 10) (1 - sigmoid (38 / 5) - sigmoid (- (38 / 5) * 0.8)) = 1 / 10"
    by (rule floor_applies [OF p])
  have c: "calculateMLProbability ctx_noHistory
       = \<lparr> homeWin = Fin (sigmoid (38 / 5)), draw = Fin (1 / 10),
           awayWin = Fin (sigmoid (- (38 / 5) * 0.8)) \<rparr>"
    unfolding calculateMLProbability_finite [OF logit_noHistory] m ..
  have g: "11 / 10 \<le> sigmoid (38 / 5) + 1 / 10 + sigmoid (- (38 / 5) * 0.8)"
    using p by linarith
  have n: "js_add (js_add (homeWin (calculateMLProbability ctx_noHistory))
                    (draw (calculateMLProbability ctx_noHistory)))
            (awayWin (calculateMLProbability ctx_noHistory)) \<noteq> Fin 1"
    using sum_exceeds_one [OF p]
    by (simp only: calculateMLProbability_finite [OF logit_noHistory]
        MLProbability.simps js_add.simps jsnum.inject simp_thms)
  from context_db_empty logit_noHistory c g n show ?thesis by (intro conjI)
qed

subsection \<open>Outcome scorer\<close>

lemma decide_Fin:
  "decide (Fin diff) \<lparr> homeWin = Fin h, draw = Fin d, awayWin = Fin a \<rparr> =
     (if 10 < diff then (HOME_WIN, Fin (min 95 (60 + diff / 2)))
      else if diff < - 10 then (AWAY_WIN, Fin (min 95 (60 + \<bar>diff\<bar> / 2)))
      else ((if max (max h d) a = h then HOME_WIN
             else if max (max h d) a = a then AWAY_WIN else DRAW),
            Fin (min 75 (45 + max (max h d) a * 30))))"
  by (simp add: decide_def maxProb_of_def js_gt_def js_eq_def Let_def)

lemma round_between:
  fixes x :: real
  assumes "real_of_int l \<le> x" "x \<le> real_of_int u"
  shows "l \<le> \<lfloor>x + 1 / 2\<rfloor> \<and> \<lfloor>x + 1 / 2\<rfloor> \<le> u"
proof -
  have "real_of_int l \<le> x + 1 / 2" using assms(1) by simp
  then have 1: "l \<le> \<lfloor>x + 1 / 2\<rfloor>" by (simp add: le_floor_iff)
  have "x + 1 / 2 < real_of_int u + 1" using assms(2) by simp
  then have 2: "\<lfloor>x + 1 / 2\<rfloor> \<le> u" by (simp add: floor_le_iff)
  from 1 2 show ?thesis ..
qed

lemma predictMatch_cases:
  "predictMatch src fx =
     (case generateMatchContext src fx of
        Inl e \<Rightarrow> Inr fallbackPrediction
      | Inr ctx \<Rightarrow>
          Inr (predictFromContext ctx
                 (projr (analyzeHeadToHead src (id_team (teams_home fx)) (id_team (teams_away fx))))))"
proof (cases "generateMatchContext src fx")
  case (Inl e)
  then show ?thesis by (simp add: predictMatch_def predictMatch_try_def err_defs)
next
  case (Inr ctx)
  from generateMatchContext_finite [OF Inr] have t: "homeTeam ctx = teams_home fx" "awayTeam ctx = teams_away fx"
    by simp_all
  obtain x where "analyzeHeadToHead src (id_team (teams_home fx)) (id_team (teams_away fx)) = Inr (Fin x)"
    using analyzeHeadToHead_returns by blast
  then show ?thesis using Inr by (simp add: predictMatch_def predictMatch_try_def err_defs t)
qed

lemma predictFromContext_decision:
  assumes "decide (scoreDifference ctx h2h) (calculateMLProbability ctx) = (p, Fin c)"
  shows "prediction (predictFromContext ctx h2h) = p
       \<and> confidence (predictFromContext ctx h2h) = Fin (of_int \<lfloor>c + 1 / 2\<rfloor>)"
  using assms by (simp add: predictFromContext_def Let_def)

lemma decide_decision:
  assumes L: "homeWinLogit ctx = Fin L"
  shows "decide (Fin diff) (calculateMLProbability ctx)
           = (fst (decision diff L), Fin (snd (decision diff L)))"
  unfolding calculateMLProbability_finite [OF L] decide_Fin decision_def Let_def
  by simp

lemma decision_bounds: "30 \<le> snd (decision diff L) \<and> snd (decision diff L) \<le> 95"
proof -
  define h where "h = sigmoid L"
  define a where "a = sigmoid (- L * 0.8)"
  define d where "d = max (1 / 10) (1 - h - a)"
  define m where "m = max (max h d) a"
  have m_lo: "1 / 10 \<le> m" by (simp add: m_def d_def max_def)
  have close: "30 \<le> min 75 (45 + m * 30) \<and> min 75 (45 + m * 30) \<le> 95"
    using m_lo by simp
  consider (home) "10 < diff" | (away) "\<not> 10 < diff" "diff < - 10"
    | (close) "\<not> 10 < diff" "\<not> diff < - 10"
    by blast
  then show ?thesis
  proof cases
    case home
    then show ?thesis by (simp add: decision_def)
  next
    case away
    then show ?thesis by (simp add: decision_def)
  next
    case close
    then have "snd (decision diff L) = min 75 (45 + m * 30)"
      by (simp add: decision_def Let_def m_def d_def a_def h_def)
    with \<open>30 \<le> min 75 (45 + m * 30) \<and> min 75 (45 + m * 30) \<le> 95\<close> show ?thesis by simp
  qed
qed

lemma decision_home: "10 < diff \<Longrightarrow> decision diff L = (HOME_WIN, min 95 (60 + diff / 2))"
  by (simp add: decision_def)

lemma scored_context:
  assumes diff: "scoreDifference ctx (Fin x) = Fin diff" and L: "homeWinLogit ctx = Fin L"
  shows "prediction (predictFromContext ctx (Fin x)) = fst (decision diff L)
     \<and> confidence (predictFromContext ctx (Fin x))
         = Fin (of_int \<lfloor>snd (decision diff L) + 1 / 2\<rfloor>)
     \<and> 30 \<le> \<lfloor>snd (decision diff L) + 1 / 2\<rfloor> \<and> \<lfloor>snd (decision diff L) + 1 / 2\<rfloor> \<le> 95"
proof -
  have dec: "decide (scoreDifference ctx (Fin x)) (calculateMLProbability ctx)
               = (fst (decision diff L), Fin (snd (decision diff L)))"
    unfolding diff by (rule decide_decision [OF L])
  have "real_of_int 30 \<le> snd (decision diff L)" "snd (decision diff L) \<le> real_of_int 95"
    using decision_bounds [of diff L] by simp_all
  from round_between [OF this] predictFromContext_decision [OF dec] show ?thesis by blast
qed

lemma factors_predictFromContext:
  "homeFormScore (factors (predictFromContext ctx h2h)) = homeFormScore_of (formDifference ctx)
   \<and> awayFormScore (factors (predictFromContext ctx h2h)) = awayFormScore_of (formDifference ctx)"
  by (simp add: predictFromContext_def Let_def split: prod.splits)

lemma form_factors_Fin:
  "js_add (homeFormScore_of (Fin d)) (awayFormScore_of (Fin d)) = Fin 100"
  by (simp add: homeFormScore_of_def awayFormScore_of_def js_sub_def min_def max_def)

text \<open>
  Claim C10: whatever the form difference \<open>d\<close> is, a real number or an infinity, the two
  form factors \<open>clamp(50 + d)\<close> and \<open>clamp(50 - d)\<close> add up to exactly 100; and the two
  form factors of every prediction add up to 100.
\<close>

theorem form_factors_sum_to_100:
  "js_add (homeFormScore_of (Fin d)) (awayFormScore_of (Fin d)) = Fin 100
   \<and> js_add (homeFormScore_of PInf) (awayFormScore_of PInf) = Fin 100
   \<and> js_add (homeFormScore_of NInf) (awayFormScore_of NInf) = Fin 100
   \<and> (\<exists>r. predictMatch src fx = Inr r
          \<and> js_add (homeFormScore (factors r)) (awayFormScore (factors r)) = Fin 100)"
proof -
  have "\<exists>r. predictMatch src fx = Inr r
          \<and> js_add (homeFormScore (factors r)) (awayFormScore (factors r)) = Fin 100"
  proof (cases "generateMatchContext src fx")
    case (Inl e)
    then show ?thesis by (simp add: predictMatch_cases fallbackPrediction_def)
  next
    case (Inr ctx)
    from generateMatchContext_finite [OF Inr] finite_context_formDifference
    obtain d where "formDifference ctx = Fin d" by blast
    then show ?thesis using Inr
      by (simp add: predictMatch_cases factors_predictFromContext form_factors_Fin)
  qed
  then show ?thesis
    by (simp add: homeFormScore_of_def awayFormScore_of_def js_sub_def min_def max_def)
qed

text \<open>The confidence of every prediction is an integer between 30 and 95.\<close>

lemma predictMatch_confidence_range:
  "\<exists>r c. predictMatch src fx = Inr r \<and> confidence r = Fin (of_int c) \<and> 30 \<le> c \<and> c \<le> 95"
proof (cases "generateMatchContext src fx")
  case (Inl e)
  have c: "confidence fallbackPrediction = Fin (of_int 30)" by (simp add: fallbackPrediction_def)
  have r: "predictMatch src fx = Inr fallbackPrediction" using Inl by (simp add: predictMatch_cases)
  show ?thesis
    apply (rule exI [of _ fallbackPrediction])
    apply (rule exI [of _ 30])
    using c r by simp
next
  case (Inr ctx)
  from generateMatchContext_finite [OF Inr] have fin: "finite_context ctx" by simp
  obtain x where x: "analyzeHeadToHead src (id_team (teams_home fx)) (id_team (teams_away fx)) = Inr (Fin x)"
    using analyzeHeadToHead_returns by blast
  obtain diff where diff: "scoreDifference ctx (Fin x) = Fin diff"
    using finite_context_scoreDifference [OF fin] by blast
  obtain L where L: "homeWinLogit ctx = Fin L" using finite_context_logit [OF fin] by blast
  have r: "predictMatch src fx = Inr (predictFromContext ctx (Fin x))"
    using Inr x by (simp add: predictMatch_cases)
  note sc = scored_context [OF diff L]
  show ?thesis
    apply (rule exI [of _ "predictFromContext ctx (Fin x)"])
    apply (rule exI [of _ "\<lfloor>snd (decision diff L) + 1 / 2\<rfloor>"])
    apply (intro conjI)
       apply (rule r)
      apply (rule conjunct1 [OF conjunct2 [OF sc]])
     apply (rule conjunct1 [OF conjunct2 [OF conjunct2 [OF sc]]])
    apply (rule conjunct2 [OF conjunct2 [OF conjunct2 [OF sc]]])
    done
qed

lemma fx1001_teams: "id_team team33 = 33" "id_team team34 = 34"
  "teams_home fx1001 = team33" "teams_away fx1001 = team34"
  by (simp_all add: fx1001_def team33_def team34_def)

lemma form33_oneWin: "analyzeTeamForm (Database db_oneWin api) 33 5 = Inr oneWinForm"
  by (simp add: analyzeTeamForm_def Database_defs err_defs form_loop_def form_step_def num_def
      db_oneWin_def fx900_def fx1001_def team33_def team34_def team35_def oneWinForm_def)

lemma form34_oneWin: "analyzeTeamForm (Database db_oneWin api) 34 5 = Inr noHistoryForm"
  by (simp add: analyzeTeamForm_def Database_defs err_defs form_loop_def form_step_def num_def
      db_oneWin_def fx900_def fx1001_def team33_def team34_def team35_def noHistoryForm_def)

lemma stats_oneWin: "analyzeTeamStatistics (Database db_oneWin (Inr ex_api)) t = Inr neutralStats"
  by (simp add: analyzeTeamStatistics_cases collectSeasonData_def Database_defs err_defs
      db_oneWin_def ex_api_def getAnalysisSeasons_def getCurrentSeason_def blend_def)

lemma h2h_records_oneWin:
  "getHeadToHeadRecords (Database db_oneWin (Inr ex_api)) 33 34 10 = Inr []"
  by (simp add: Database_defs db_oneWin_def fx900_def fx1001_def team33_def team34_def team35_def)

lemma h2h_oneWin: "analyzeHeadToHead (Database db_oneWin (Inr ex_api)) 33 34 = Inr (Fin 50)"
  by (simp add: analyzeHeadToHead_cases h2h_records_oneWin)

lemma context_oneWin:
  "generateMatchContext (Database db_oneWin (Inr ex_api)) fx1001 = Inr ctx_oneWin"
  by (simp add: generateMatchContext_cases fx1001_teams form33_oneWin form34_oneWin stats_oneWin
      h2h_records_oneWin ctx_oneWin_def HOME_ADVANTAGE_FACTOR_def)

lemma diff_oneWin: "scoreDifference ctx_oneWin (Fin 50) = Fin (73 / 4)"
  by (simp add: scoreDifference_def formDifference_def ctx_oneWin_def oneWinForm_def
      noHistoryForm_def neutralStats_def homeFormScore_of_Fin awayFormScore_of_Fin
      homeScore_of_def awayScore_of_def js_sub_def FORM_WEIGHT_def STATS_WEIGHT_def
      HOME_ADVANTAGE_FACTOR_def)

lemma logit_oneWin: "homeWinLogit ctx_oneWin = Fin 8"
  by (simp add: homeWinLogit_def ctx_oneWin_def oneWinForm_def noHistoryForm_def
      neutralStats_def Let_def js_sub_def)

lemma decision_oneWin: "decision (73 / 4) L = (HOME_WIN, 553 / 8)"
  by (simp add: decision_home)

lemma round_oneWin: "\<lfloor>(553 / 8 :: real) + 1 / 2\<rfloor> = 69"
  by (simp add: floor_eq_iff)

lemma predict_oneWin:
  "predictMatch (Database db_oneWin (Inr ex_api)) fx1001 = Inr (predictFromContext ctx_oneWin (Fin 50))"
  by (simp add: predictMatch_cases context_oneWin fx1001_teams h2h_oneWin)

text \<open>At the database in which team 33 has won its only match the score difference is
  18.25: the confidence before rounding is 69.125 and the confidence returned is 69.\<close>

lemma predictMatch_oneWin:
  "generateMatchContext (Database db_oneWin (Inr ex_api)) fx1001 = Inr ctx_oneWin
   \<and> analyzeHeadToHead (Database db_oneWin (Inr ex_api)) 33 34 = Inr (Fin 50)
   \<and> scoreDifference ctx_oneWin (Fin 50) = Fin (73 / 4)
   \<and> predictMatch (Database db_oneWin (Inr ex_api)) fx1001
        = Inr (predictFromContext ctx_oneWin (Fin 50))
   \<and> prediction (predictFromContext ctx_oneWin (Fin 50)) = HOME_WIN
   \<and> confidence (predictFromContext ctx_oneWin (Fin 50)) = Fin 69
   \<and> js_min (Fin 95) (js_add (Fin 60) (js_div (scoreDifference ctx_oneWin (Fin 50)) (Fin 2)))
        = Fin (553 / 8)"
proof -
  from scored_context [OF diff_oneWin logit_oneWin]
  have "prediction (predictFromContext ctx_oneWin (Fin 50)) = HOME_WIN"
       "confidence (predictFromContext ctx_oneWin (Fin 50)) = Fin 69"
    by (simp_all add: decision_oneWin round_oneWin)
  moreover have "js_min (Fin 95) (js_add (Fin 60) (js_div (scoreDifference ctx_oneWin (Fin 50)) (Fin 2)))
        = Fin (553 / 8)"
    by (simp add: diff_oneWin)
  ultimately show ?thesis
    using context_oneWin h2h_oneWin diff_oneWin predict_oneWin by simp
qed



















end
